theory Spec2Isabelle
  imports Complex_Main
begin

section \<open>GeoPlot: trajectory to GeoJSON and HTML\<close>

text \<open>
  A shallow embedding of \<^verbatim>\<open>src/geoplot.py\<close>: the module constant
  \<^verbatim>\<open>geoplot_template\<close>, the helper \<^verbatim>\<open>read_var\<close> and the method
  \<^verbatim>\<open>GeoPlot.render\<close>. Library calls (numpy, pandas, json, string.Template,
  agent_torch's \<^verbatim>\<open>get_by_path\<close>) are not part of the module; each is either modelled
  below, with the behaviour it is given written next to it, or taken as a parameter.
\<close>

subsection \<open>Python values and exceptions\<close>

text \<open>
  The exceptions that the modelled statements can raise. \<open>PathNotFound\<close> is the
  specification's name for a failed path lookup; only the resolver uses it.
\<close>

datatype py_error = IndexError | TypeError | ValueError | KeyError | PathNotFound

text \<open>
  What a path resolves to: a number or a nested list of numbers (what
  \<^verbatim>\<open>np.array\<close> is given). The scalar type \<open>'s\<close> stands for one numpy dtype, so
  no conversion between dtypes occurs.
\<close>

datatype 's nd = Sc 's | Arr "'s nd list"

text \<open>The dictionaries, lists and strings that \<^verbatim>\<open>render\<close> builds and hands to json.\<close>

datatype 's pyobj =
    PNum 's
  | PStr string
  | PList "'s pyobj list"
  | PDict "(string \<times> 's pyobj) list"

fun of_nd :: "'s nd \<Rightarrow> 's pyobj" where
  "of_nd (Sc x) = PNum x"
| "of_nd (Arr vs) = PList (map of_nd vs)"

text \<open>\<^verbatim>\<open>xs[i]\<close> for a list and an index \<open>i \<ge> 0\<close>, and \<^verbatim>\<open>xs[-1]\<close>.\<close>

definition py_index :: "'a list \<Rightarrow> nat \<Rightarrow> py_error + 'a" where
  "py_index xs i = (if i < length xs then Inr (xs ! i) else Inl IndexError)"

definition py_last :: "'a list \<Rightarrow> py_error + 'a" where
  "py_last xs = (case xs of [] \<Rightarrow> Inl IndexError | _ # _ \<Rightarrow> Inr (last xs))"

text \<open>\<^verbatim>\<open>v[i]\<close> on a resolved value: a number is not subscriptable.\<close>

fun nd_getitem :: "'s nd \<Rightarrow> nat \<Rightarrow> py_error + 's nd" where
  "nd_getitem (Sc x) i = Inl TypeError"
| "nd_getitem (Arr vs) i = py_index vs i"

text \<open>The items of a list value; a number has none.\<close>

fun nd_items :: "'s nd \<Rightarrow> 's nd list" where
  "nd_items (Sc x) = []"
| "nd_items (Arr vs) = vs"

text \<open>\<^verbatim>\<open>d[k]\<close> and \<^verbatim>\<open>d.keys()\<close> on a dictionary (none on another object).\<close>

fun dict_get :: "'s pyobj \<Rightarrow> string \<Rightarrow> 's pyobj option" where
  "dict_get (PDict kvs) k = map_of kvs k"
| "dict_get _ k = None"

fun dict_keys :: "'s pyobj \<Rightarrow> string list" where
  "dict_keys (PDict kvs) = map fst kvs"
| "dict_keys _ = []"

text \<open>A chain of lookups, \<^verbatim>\<open>d[k1][k2]...\<close>.\<close>

fun dict_path :: "'s pyobj \<Rightarrow> string list \<Rightarrow> 's pyobj option" where
  "dict_path d [] = Some d"
| "dict_path d (k # ks) =
     (case dict_get d k of None \<Rightarrow> None | Some v \<Rightarrow> dict_path v ks)"

text \<open>Iterating a value (\<^verbatim>\<open>enumerate(coords)\<close>): a number is not iterable.\<close>

fun py_iter :: "'s nd \<Rightarrow> py_error + 's nd list" where
  "py_iter (Sc x) = Inl TypeError"
| "py_iter (Arr vs) = Inr vs"

definition enumerate_py :: "'a list \<Rightarrow> (nat \<times> 'a) list" where
  "enumerate_py xs = zip [0..<length xs] xs"

text \<open>\<^verbatim>\<open>range(n)\<close>: empty when \<open>n \<le> 0\<close>.\<close>

definition py_range :: "int \<Rightarrow> int list" where
  "py_range n = map int [0..<nat n]"

subsection \<open>numpy: \<^verbatim>\<open>np.array\<close>, \<^verbatim>\<open>flatten\<close>, \<^verbatim>\<open>tolist\<close>\<close>

text \<open>
  An array is a shape and its elements in row-major order. \<^verbatim>\<open>np.array\<close> accepts a
  number (shape \<open>()\<close>) and a nested list whose sublists agree in shape at every depth;
  on a ragged list it raises \<^verbatim>\<open>ValueError\<close> (numpy 1.24 and later).
\<close>

record 's ndarray =
  shape :: "nat list"
  data :: "'s list"

fun np_shape :: "'s nd \<Rightarrow> nat list option" where
  "np_shape (Sc x) = Some []"
| "np_shape (Arr []) = Some [0]"
| "np_shape (Arr (v # vs)) =
     (case np_shape v of
        None \<Rightarrow> None
      | Some sh \<Rightarrow>
          if list_all (\<lambda>u. np_shape u = Some sh) vs
          then Some (Suc (length vs) # sh) else None)"

fun np_flat :: "'s nd \<Rightarrow> 's list" where
  "np_flat (Sc x) = [x]"
| "np_flat (Arr vs) = concat (map np_flat vs)"

definition np_array :: "'s nd \<Rightarrow> py_error + 's ndarray" where
  "np_array v =
     (case np_shape v of
        None \<Rightarrow> Inl ValueError
      | Some sh \<Rightarrow> Inr \<lparr>shape = sh, data = np_flat v\<rparr>)"

definition flatten :: "'s ndarray \<Rightarrow> 's ndarray" where
  "flatten a = \<lparr>shape = [length (data a)], data = data a\<rparr>"

text \<open>
  \<^verbatim>\<open>tolist\<close> rebuilds the nested list: a 0-dimensional array gives its one
  element, an array of shape \<open>n # sh\<close> gives the list of its \<open>n\<close> slices. (A
  0-dimensional array always holds one element; the empty case of \<open>unflat\<close> is never
  reached from \<open>np_array\<close>.)
\<close>

fun unflat :: "nat list \<Rightarrow> 's list \<Rightarrow> 's nd" where
  "unflat [] d = (case d of [] \<Rightarrow> Arr [] | x # _ \<Rightarrow> Sc x)"
| "unflat (n # sh) d =
     Arr (map (\<lambda>k. unflat sh (take (prod_list sh) (drop (k * prod_list sh) d))) [0..<n])"

definition tolist :: "'s ndarray \<Rightarrow> 's nd" where
  "tolist a = unflat (shape a) (data a)"

subsection \<open>Path lookup: \<^verbatim>\<open>read_var\<close>\<close>

text \<open>
  \<^verbatim>\<open>re.split("/", var)\<close>: the pieces between the slashes, empty pieces included
  (\<^verbatim>\<open>"a//b"\<close> gives three pieces, \<^verbatim>\<open>""\<close> gives one).
\<close>

fun re_split_slash :: "string \<Rightarrow> string list" where
  "re_split_slash [] = [[]]"
| "re_split_slash (c # cs) =
     (if c = CHR ''/'' then [] # re_split_slash cs
      else (case re_split_slash cs of
              [] \<Rightarrow> [[c]]
            | p # ps \<Rightarrow> (c # p) # ps))"

text \<open>
  \<^verbatim>\<open>get_by_path\<close> is imported from \<^verbatim>\<open>agent_torch.core.helpers\<close>, which is not in
  this repository: \<open>read_var\<close> takes it as the parameter \<open>gbp\<close>, over any type
  \<open>'st\<close> of states.
\<close>

type_synonym ('st, 's) resolver = "'st \<Rightarrow> string list \<Rightarrow> py_error + 's nd"

definition read_var :: "('st, 's) resolver \<Rightarrow> 'st \<Rightarrow> string \<Rightarrow> py_error + 's nd" where
  "read_var gbp state var = gbp state (re_split_slash var)"

subsection \<open>The GeoPlot object\<close>

text \<open>
  \<^verbatim>\<open>config["simulation_metadata"]\<close> with the three entries that \<^verbatim>\<open>render\<close> reads, and
  the five options that \<^verbatim>\<open>__init__\<close> stores. \<open>step_time\<close> is a whole number of
  seconds.
\<close>

record metadata =
  name :: string
  num_episodes :: int
  num_steps_per_episode :: int

record config =
  simulation_metadata :: metadata

record geoplot =
  config :: config
  cesium_token :: string
  step_time :: int
  entity_position :: string
  entity_property :: string
  visualization_type :: string

text \<open>
  What \<^verbatim>\<open>render\<close> takes from outside the module: the path resolver, the clock
  (\<^verbatim>\<open>pd.Timestamp.utcnow()\<close>, in nanoseconds since the epoch), \<^verbatim>\<open>Timestamp.isoformat\<close>
  and \<^verbatim>\<open>json.dumps\<close>.
\<close>

record ('st, 's) library =
  get_by_path :: "('st, 's) resolver"
  utcnow :: int
  isoformat :: "int \<Rightarrow> string"
  json_dumps :: "'s pyobj \<Rightarrow> string"

subsection \<open>Extraction of coordinates and values\<close>

text \<open>
  \<^verbatim>\<open>
  coords, values = [], []
  for i in range(0, len(state_trajectory) - 1):
      final_state = state_trajectory[i][-1]
      coords = np.array(read_var(final_state, self.entity_position)).tolist()
      values.append(
          np.array(read_var(final_state, self.entity_property)).flatten().tolist())
  \<close>
  The loop runs over the list of indices; \<open>length state_trajectory - 1\<close> is \<open>0\<close> for
  the empty trajectory, as \<^verbatim>\<open>range(0, -1)\<close> is empty.
\<close>

fun extract_loop ::
  "('st, 's) resolver \<Rightarrow> geoplot \<Rightarrow> 'st list list \<Rightarrow> nat list \<Rightarrow>
     's nd \<Rightarrow> 's nd list \<Rightarrow> py_error + ('s nd \<times> 's nd list)" where
  "extract_loop gbp self state_trajectory [] coords values = Inr (coords, values)"
| "extract_loop gbp self state_trajectory (i # rest) coords values =
     (case py_last (state_trajectory ! i) of
        Inl e \<Rightarrow> Inl e
      | Inr final_state \<Rightarrow>
     (case read_var gbp final_state (entity_position self) of
        Inl e \<Rightarrow> Inl e
      | Inr p \<Rightarrow>
     (case np_array p of
        Inl e \<Rightarrow> Inl e
      | Inr a \<Rightarrow>
     (case read_var gbp final_state (entity_property self) of
        Inl e \<Rightarrow> Inl e
      | Inr q \<Rightarrow>
     (case np_array q of
        Inl e \<Rightarrow> Inl e
      | Inr b \<Rightarrow>
          extract_loop gbp self state_trajectory rest
            (tolist a) (values @ [tolist (flatten b)]))))))"

definition extract_coords_values ::
  "('st, 's) resolver \<Rightarrow> geoplot \<Rightarrow> 'st list list \<Rightarrow> py_error + ('s nd \<times> 's nd list)" where
  "extract_coords_values gbp self state_trajectory =
     extract_loop gbp self state_trajectory [0..<length state_trajectory - 1] (Arr []) []"

subsection \<open>Timestamps\<close>

text \<open>
  \<^verbatim>\<open>
  timestamps = [start_time + pd.Timedelta(seconds=i * self.step_time)
                for i in range(num_episodes * num_steps_per_episode)]
  \<close>
  A timestamp is an integer count of nanoseconds; the bounds of pandas' 64-bit
  representation are not modelled.
\<close>

definition gen_timestamps :: "geoplot \<Rightarrow> int \<Rightarrow> int list" where
  "gen_timestamps self start_time =
     map (\<lambda>i. start_time + i * step_time self * 1000000000)
       (py_range (num_episodes (simulation_metadata (config self)) *
                  num_steps_per_episode (simulation_metadata (config self))))"

subsection \<open>GeoJSON features\<close>

text \<open>
  \<^verbatim>\<open>
  for i, coord in enumerate(coords):
      features = []
      for time, value_list in zip(timestamps, values):
          features.append({
              "type": "Feature",
              "geometry": {"type": "Point", "coordinates": [coord[1], coord[0]]},
              "properties": {"value": value_list[i], "time": time.isoformat()},
          })
      geojsons.append({"type": "FeatureCollection", "features": features})
  \<close>
  The subscripts are evaluated in the order in which the dictionary display lists them.
\<close>

fun features_loop ::
  "(int \<Rightarrow> string) \<Rightarrow> nat \<Rightarrow> 's nd \<Rightarrow> (int \<times> 's nd) list \<Rightarrow>
     's pyobj list \<Rightarrow> py_error + 's pyobj list" where
  "features_loop isofmt i coord [] features = Inr features"
| "features_loop isofmt i coord ((time, value_list) # rest) features =
     (case nd_getitem coord 1 of
        Inl e \<Rightarrow> Inl e
      | Inr c1 \<Rightarrow>
     (case nd_getitem coord 0 of
        Inl e \<Rightarrow> Inl e
      | Inr c0 \<Rightarrow>
     (case nd_getitem value_list i of
        Inl e \<Rightarrow> Inl e
      | Inr v \<Rightarrow>
          features_loop isofmt i coord rest
            (features @
              [PDict
                [(''type'', PStr ''Feature''),
                 (''geometry'',
                    PDict [(''type'', PStr ''Point''),
                           (''coordinates'', PList [of_nd c1, of_nd c0])]),
                 (''properties'',
                    PDict [(''value'', of_nd v),
                           (''time'', PStr (isofmt time))])]]))))"

fun geojsons_loop ::
  "(int \<Rightarrow> string) \<Rightarrow> (nat \<times> 's nd) list \<Rightarrow> int list \<Rightarrow> 's nd list \<Rightarrow>
     's pyobj list \<Rightarrow> py_error + 's pyobj list" where
  "geojsons_loop isofmt [] timestamps values geojsons = Inr geojsons"
| "geojsons_loop isofmt ((i, coord) # rest) timestamps values geojsons =
     (case features_loop isofmt i coord (zip timestamps values) [] of
        Inl e \<Rightarrow> Inl e
      | Inr features \<Rightarrow>
          geojsons_loop isofmt rest timestamps values
            (geojsons @
              [PDict [(''type'', PStr ''FeatureCollection''),
                      (''features'', PList features)]]))"

definition construct_geojsons ::
  "(int \<Rightarrow> string) \<Rightarrow> 's nd \<Rightarrow> int list \<Rightarrow> 's nd list \<Rightarrow> py_error + 's pyobj list" where
  "construct_geojsons isofmt coords timestamps values =
     (case py_iter coords of
        Inl e \<Rightarrow> Inl e
      | Inr cs \<Rightarrow> geojsons_loop isofmt (enumerate_py cs) timestamps values [])"

text \<open>Names for the two dictionary displays of the loop, for use in statements.\<close>

abbreviation feature_obj :: "'s pyobj \<Rightarrow> 's pyobj \<Rightarrow> 's pyobj \<Rightarrow> string \<Rightarrow> 's pyobj" where
  "feature_obj lon lat v t \<equiv>
     PDict
       [(''type'', PStr ''Feature''),
        (''geometry'',
           PDict [(''type'', PStr ''Point''),
                  (''coordinates'', PList [lon, lat])]),
        (''properties'',
           PDict [(''value'', v),
                  (''time'', PStr t)])]"

abbreviation collection_obj :: "'s pyobj list \<Rightarrow> 's pyobj" where
  "collection_obj features \<equiv>
     PDict [(''type'', PStr ''FeatureCollection''),
            (''features'', PList features)]"

subsection \<open>The HTML template\<close>

text \<open>The module constant \<^verbatim>\<open>geoplot_template\<close>, line by line.\<close>

definition geoplot_template :: string where
  \<open>geoplot_template = concat [
    ''\<newline>'',
    ''<!doctype html>\<newline>'',
    ''<html lang="en">\<newline>'',
    ''  <head>\<newline>'',
    ''    <meta charset="UTF-8" />\<newline>'',
    ''    <meta name="viewport" content="width=device-width, initial-scale=1.0" />\<newline>'',
    ''    <title>Cesium Time-Series Heatmap Visualization</title>\<newline>'',
    ''    <script src="https://cesium.com/downloads/cesiumjs/releases/1.95/Build/Cesium/Cesium.js"></script>\<newline>'',
    ''    <link href="https://cesium.com/downloads/cesiumjs/releases/1.95/Build/Cesium/Widgets/widgets.css" rel="stylesheet" />\<newline>'',
    ''    <style>#cesiumContainer { width: 100%; height: 100%; }</style>\<newline>'',
    ''  </head>\<newline>'',
    ''  <body>\<newline>'',
    ''    <div id="cesiumContainer"></div>\<newline>'',
    ''    <script>\<newline>'',
    ''      Cesium.Ion.defaultAccessToken = '$accessToken';\<newline>'',
    ''      const viewer = new Cesium.Viewer('cesiumContainer');\<newline>'',
    ''\<newline>'',
    ''      function interpolateColor(color1, color2, factor) {\<newline>'',
    ''        const result = new Cesium.Color();\<newline>'',
    ''        result.red = color1.red + factor * (color2.red - color1.red);\<newline>'',
    ''        result.green = color1.green + factor * (color2.green - color1.green);\<newline>'',
    ''        result.blue = color1.blue + factor * (color2.blue - color1.blue);\<newline>'',
    ''        result.alpha = '$visualType' == 'size' ? 0.2 : color1.alpha + factor * (color2.alpha - color1.alpha);\<newline>'',
    ''        return result;\<newline>'',
    ''      }\<newline>'',
    ''\<newline>'',
    ''      function getColor(value, min, max) {\<newline>'',
    ''        const factor = (value - min) / (max - min);\<newline>'',
    ''        return interpolateColor(Cesium.Color.BLUE, Cesium.Color.RED, factor);\<newline>'',
    ''      }\<newline>'',
    ''\<newline>'',
    ''      function getPixelSize(value, min, max) {\<newline>'',
    ''        const factor = (value - min) / (max - min);\<newline>'',
    ''        return 100 * (1 + factor);\<newline>'',
    ''      }\<newline>'',
    ''\<newline>'',
    ''      function processTimeSeriesData(geoJsonData) {\<newline>'',
    ''        const timeSeriesMap = new Map();\<newline>'',
    ''        let minValue = Infinity;\<newline>'',
    ''        let maxValue = -Infinity;\<newline>'',
    ''\<newline>'',
    ''        geoJsonData.features.forEach((feature) => {\<newline>'',
    ''          const id = feature.properties.id;\<newline>'',
    ''          const time = Cesium.JulianDate.fromIso8601(feature.properties.time);\<newline>'',
    ''          const value = feature.properties.value;\<newline>'',
    ''          const coordinates = feature.geometry.coordinates;\<newline>'',
    ''\<newline>'',
    ''          if (!timeSeriesMap.has(id)) {\<newline>'',
    ''            timeSeriesMap.set(id, []);\<newline>'',
    ''          }\<newline>'',
    ''          timeSeriesMap.get(id).push({ time, value, coordinates });\<newline>'',
    ''\<newline>'',
    ''          minValue = Math.min(minValue, value);\<newline>'',
    ''          maxValue = Math.max(maxValue, value);\<newline>'',
    ''        });\<newline>'',
    ''\<newline>'',
    ''        return { timeSeriesMap, minValue, maxValue };\<newline>'',
    ''      }\<newline>'',
    ''\<newline>'',
    ''      function createTimeSeriesEntities(timeSeriesData, startTime, stopTime) {\<newline>'',
    ''        const dataSource = new Cesium.CustomDataSource('AgentTorch Simulation');\<newline>'',
    ''\<newline>'',
    ''        for (const [id, timeSeries] of timeSeriesData.timeSeriesMap) {\<newline>'',
    ''          const entity = new Cesium.Entity({\<newline>'',
    ''            id: id,\<newline>'',
    ''            availability: new Cesium.TimeIntervalCollection([\<newline>'',
    ''              new Cesium.TimeInterval({ start: startTime, stop: stopTime }),\<newline>'',
    ''            ]),\<newline>'',
    ''            position: new Cesium.SampledPositionProperty(),\<newline>'',
    ''            point: {\<newline>'',
    ''              pixelSize: '$visualType' == 'size' ? new Cesium.SampledProperty(Number) : 10,\<newline>'',
    ''              color: new Cesium.SampledProperty(Cesium.Color),\<newline>'',
    ''            },\<newline>'',
    ''            properties: {\<newline>'',
    ''              value: new Cesium.SampledProperty(Number),\<newline>'',
    ''            },\<newline>'',
    ''          });\<newline>'',
    ''\<newline>'',
    ''          timeSeries.forEach(({ time, value, coordinates }) => {\<newline>'',
    ''            const position = Cesium.Cartesian3.fromDegrees(coordinates[0], coordinates[1]);\<newline>'',
    ''            entity.position.addSample(time, position);\<newline>'',
    ''            entity.properties.value.addSample(time, value);\<newline>'',
    ''            entity.point.color.addSample(time, getColor(value, timeSeriesData.minValue, timeSeriesData.maxValue));\<newline>'',
    ''            if ('$visualType' == 'size') {\<newline>'',
    ''              entity.point.pixelSize.addSample(time, getPixelSize(value, timeSeriesData.minValue, timeSeriesData.maxValue));\<newline>'',
    ''            }\<newline>'',
    ''          });\<newline>'',
    ''\<newline>'',
    ''          dataSource.entities.add(entity);\<newline>'',
    ''        }\<newline>'',
    ''\<newline>'',
    ''        return dataSource;\<newline>'',
    ''      }\<newline>'',
    ''\<newline>'',
    ''      const geoJsons = $data;\<newline>'',
    ''      const start = Cesium.JulianDate.fromIso8601('$startTime');\<newline>'',
    ''      const stop = Cesium.JulianDate.fromIso8601('$stopTime');\<newline>'',
    ''\<newline>'',
    ''      viewer.clock.startTime = start.clone();\<newline>'',
    ''      viewer.clock.stopTime = stop.clone();\<newline>'',
    ''      viewer.clock.currentTime = start.clone();\<newline>'',
    ''      viewer.clock.clockRange = Cesium.ClockRange.LOOP_STOP;\<newline>'',
    ''      viewer.clock.multiplier = 3600; // 1 hour per second\<newline>'',
    ''\<newline>'',
    ''      viewer.timeline.zoomTo(start, stop);\<newline>'',
    ''\<newline>'',
    ''      for (const geoJsonData of geoJsons) {\<newline>'',
    ''        const timeSeriesData = processTimeSeriesData(geoJsonData);\<newline>'',
    ''        const dataSource = createTimeSeriesEntities(timeSeriesData, start, stop);\<newline>'',
    ''        viewer.dataSources.add(dataSource);\<newline>'',
    ''        viewer.zoomTo(dataSource);\<newline>'',
    ''      }\<newline>'',
    ''    </script>\<newline>'',
    ''  </body>\<newline>'',
    ''</html>\<newline>'']\<close>

text \<open>
  The eight stretches of the template between its seven placeholders, in order: the
  text up to \<^verbatim>\<open>$accessToken\<close>, from there up to each of the three
  \<^verbatim>\<open>$visualType\<close>, up to \<^verbatim>\<open>$data\<close>, \<^verbatim>\<open>$startTime\<close> and \<^verbatim>\<open>$stopTime\<close>, and the
  rest. A stretch that ends in a single quote has it appended as \<open>CHR 0x27\<close>.
\<close>

definition tpl_upto_token :: string where
  \<open>tpl_upto_token = concat [
    ''\<newline>'',
    ''<!doctype html>\<newline>'',
    ''<html lang="en">\<newline>'',
    ''  <head>\<newline>'',
    ''    <meta charset="UTF-8" />\<newline>'',
    ''    <meta name="viewport" content="width=device-width, initial-scale=1.0" />\<newline>'',
    ''    <title>Cesium Time-Series Heatmap Visualization</title>\<newline>'',
    ''    <script src="https://cesium.com/downloads/cesiumjs/releases/1.95/Build/Cesium/Cesium.js"></script>\<newline>'',
    ''    <link href="https://cesium.com/downloads/cesiumjs/releases/1.95/Build/Cesium/Widgets/widgets.css" rel="stylesheet" />\<newline>'',
    ''    <style>#cesiumContainer { width: 100%; height: 100%; }</style>\<newline>'',
    ''  </head>\<newline>'',
    ''  <body>\<newline>'',
    ''    <div id="cesiumContainer"></div>\<newline>'',
    ''    <script>\<newline>'',
    ''      Cesium.Ion.defaultAccessToken = '' @ [CHR 0x27]]\<close>

definition tpl_upto_alpha_test :: string where
  \<open>tpl_upto_alpha_test = concat [
    ''';\<newline>'',
    ''      const viewer = new Cesium.Viewer('cesiumContainer');\<newline>'',
    ''\<newline>'',
    ''      function interpolateColor(color1, color2, factor) {\<newline>'',
    ''        const result = new Cesium.Color();\<newline>'',
    ''        result.red = color1.red + factor * (color2.red - color1.red);\<newline>'',
    ''        result.green = color1.green + factor * (color2.green - color1.green);\<newline>'',
    ''        result.blue = color1.blue + factor * (color2.blue - color1.blue);\<newline>'',
    ''        result.alpha = '' @ [CHR 0x27]]\<close>

definition tpl_upto_size_test :: string where
  \<open>tpl_upto_size_test = concat [
    ''' == 'size' ? 0.2 : color1.alpha + factor * (color2.alpha - color1.alpha);\<newline>'',
    ''        return result;\<newline>'',
    ''      }\<newline>'',
    ''\<newline>'',
    ''      function getColor(value, min, max) {\<newline>'',
    ''        const factor = (value - min) / (max - min);\<newline>'',
    ''        return interpolateColor(Cesium.Color.BLUE, Cesium.Color.RED, factor);\<newline>'',
    ''      }\<newline>'',
    ''\<newline>'',
    ''      function getPixelSize(value, min, max) {\<newline>'',
    ''        const factor = (value - min) / (max - min);\<newline>'',
    ''        return 100 * (1 + factor);\<newline>'',
    ''      }\<newline>'',
    ''\<newline>'',
    ''      function processTimeSeriesData(geoJsonData) {\<newline>'',
    ''        const timeSeriesMap = new Map();\<newline>'',
    ''        let minValue = Infinity;\<newline>'',
    ''        let maxValue = -Infinity;\<newline>'',
    ''\<newline>'',
    ''        geoJsonData.features.forEach((feature) => {\<newline>'',
    ''          const id = feature.properties.id;\<newline>'',
    ''          const time = Cesium.JulianDate.fromIso8601(feature.properties.time);\<newline>'',
    ''          const value = feature.properties.value;\<newline>'',
    ''          const coordinates = feature.geometry.coordinates;\<newline>'',
    ''\<newline>'',
    ''          if (!timeSeriesMap.has(id)) {\<newline>'',
    ''            timeSeriesMap.set(id, []);\<newline>'',
    ''          }\<newline>'',
    ''          timeSeriesMap.get(id).push({ time, value, coordinates });\<newline>'',
    ''\<newline>'',
    ''          minValue = Math.min(minValue, value);\<newline>'',
    ''          maxValue = Math.max(maxValue, value);\<newline>'',
    ''        });\<newline>'',
    ''\<newline>'',
    ''        return { timeSeriesMap, minValue, maxValue };\<newline>'',
    ''      }\<newline>'',
    ''\<newline>'',
    ''      function createTimeSeriesEntities(timeSeriesData, startTime, stopTime) {\<newline>'',
    ''        const dataSource = new Cesium.CustomDataSource('AgentTorch Simulation');\<newline>'',
    ''\<newline>'',
    ''        for (const [id, timeSeries] of timeSeriesData.timeSeriesMap) {\<newline>'',
    ''          const entity = new Cesium.Entity({\<newline>'',
    ''            id: id,\<newline>'',
    ''            availability: new Cesium.TimeIntervalCollection([\<newline>'',
    ''              new Cesium.TimeInterval({ start: startTime, stop: stopTime }),\<newline>'',
    ''            ]),\<newline>'',
    ''            position: new Cesium.SampledPositionProperty(),\<newline>'',
    ''            point: {\<newline>'',
    ''              pixelSize: '' @ [CHR 0x27]]\<close>

definition tpl_upto_sample_test :: string where
  \<open>tpl_upto_sample_test = concat [
    ''' == 'size' ? new Cesium.SampledProperty(Number) : 10,\<newline>'',
    ''              color: new Cesium.SampledProperty(Cesium.Color),\<newline>'',
    ''            },\<newline>'',
    ''            properties: {\<newline>'',
    ''              value: new Cesium.SampledProperty(Number),\<newline>'',
    ''            },\<newline>'',
    ''          });\<newline>'',
    ''\<newline>'',
    ''          timeSeries.forEach(({ time, value, coordinates }) => {\<newline>'',
    ''            const position = Cesium.Cartesian3.fromDegrees(coordinates[0], coordinates[1]);\<newline>'',
    ''            entity.position.addSample(time, position);\<newline>'',
    ''            entity.properties.value.addSample(time, value);\<newline>'',
    ''            entity.point.color.addSample(time, getColor(value, timeSeriesData.minValue, timeSeriesData.maxValue));\<newline>'',
    ''            if ('' @ [CHR 0x27]]\<close>

definition tpl_upto_data :: string where
  \<open>tpl_upto_data = concat [
    ''' == 'size') {\<newline>'',
    ''              entity.point.pixelSize.addSample(time, getPixelSize(value, timeSeriesData.minValue, timeSeriesData.maxValue));\<newline>'',
    ''            }\<newline>'',
    ''          });\<newline>'',
    ''\<newline>'',
    ''          dataSource.entities.add(entity);\<newline>'',
    ''        }\<newline>'',
    ''\<newline>'',
    ''        return dataSource;\<newline>'',
    ''      }\<newline>'',
    ''\<newline>'',
    ''      const geoJsons = '']\<close>

definition tpl_upto_start :: string where
  \<open>tpl_upto_start = concat [
    '';\<newline>'',
    ''      const start = Cesium.JulianDate.fromIso8601('' @ [CHR 0x27]]\<close>

definition tpl_upto_stop :: string where
  \<open>tpl_upto_stop = concat [
    ''');\<newline>'',
    ''      const stop = Cesium.JulianDate.fromIso8601('' @ [CHR 0x27]]\<close>

definition tpl_tail :: string where
  \<open>tpl_tail = concat [
    ''');\<newline>'',
    ''\<newline>'',
    ''      viewer.clock.startTime = start.clone();\<newline>'',
    ''      viewer.clock.stopTime = stop.clone();\<newline>'',
    ''      viewer.clock.currentTime = start.clone();\<newline>'',
    ''      viewer.clock.clockRange = Cesium.ClockRange.LOOP_STOP;\<newline>'',
    ''      viewer.clock.multiplier = 3600; // 1 hour per second\<newline>'',
    ''\<newline>'',
    ''      viewer.timeline.zoomTo(start, stop);\<newline>'',
    ''\<newline>'',
    ''      for (const geoJsonData of geoJsons) {\<newline>'',
    ''        const timeSeriesData = processTimeSeriesData(geoJsonData);\<newline>'',
    ''        const dataSource = createTimeSeriesEntities(timeSeriesData, start, stop);\<newline>'',
    ''        viewer.dataSources.add(dataSource);\<newline>'',
    ''        viewer.zoomTo(dataSource);\<newline>'',
    ''      }\<newline>'',
    ''    </script>\<newline>'',
    ''  </body>\<newline>'',
    ''</html>\<newline>'']\<close>

text \<open>The template with five texts in the places of its seven placeholders.\<close>

abbreviation rendered_html :: "string \<Rightarrow> string \<Rightarrow> string \<Rightarrow> string \<Rightarrow> string \<Rightarrow> string" where
  "rendered_html accessToken visualType dat startTime stopTime \<equiv>
     tpl_upto_token @ accessToken @
     tpl_upto_alpha_test @ visualType @
     tpl_upto_size_test @ visualType @
     tpl_upto_sample_test @ visualType @
     tpl_upto_data @ dat @
     tpl_upto_start @ startTime @
     tpl_upto_stop @ stopTime @
     tpl_tail"

text \<open>
  \<^verbatim>\<open>string.Template.substitute\<close>: \<^verbatim>\<open>$$\<close> is a dollar sign, \<^verbatim>\<open>$name\<close> and
  \<^verbatim>\<open>${name}\<close> are replaced by the value of \<^verbatim>\<open>name\<close> (\<^verbatim>\<open>KeyError\<close> when it has
  none), where a name is an ASCII letter or underscore followed by the longest run of
  ASCII letters, digits and underscores; any other \<^verbatim>\<open>$\<close> raises \<^verbatim>\<open>ValueError\<close>. The
  text is read once, left to right: substituted values are not read again.
\<close>

definition is_id_start :: "char \<Rightarrow> bool" where
  "is_id_start c \<longleftrightarrow>
     c \<in> set ''_abcdefghijklmnopqrstuvwxyzABCDEFGHIJKLMNOPQRSTUVWXYZ''"

definition is_id_char :: "char \<Rightarrow> bool" where
  "is_id_char c \<longleftrightarrow> is_id_start c \<or> c \<in> set ''0123456789''"

function substitute :: "(string \<rightharpoonup> string) \<Rightarrow> string \<Rightarrow> py_error + string" where
  "substitute m [] = Inr []"
| "substitute m (c # cs) =
     (if c \<noteq> CHR ''$'' then
        (case substitute m cs of Inl e \<Rightarrow> Inl e | Inr r \<Rightarrow> Inr (c # r))
      else
        (case cs of
           [] \<Rightarrow> Inl ValueError
         | d # ds \<Rightarrow>
             if d = CHR ''$'' then
               (case substitute m ds of Inl e \<Rightarrow> Inl e | Inr r \<Rightarrow> Inr (CHR ''$'' # r))
             else if is_id_start d then
               (case m (d # takeWhile is_id_char ds) of
                  None \<Rightarrow> Inl KeyError
                | Some v \<Rightarrow>
                    (case substitute m (dropWhile is_id_char ds) of
                       Inl e \<Rightarrow> Inl e
                     | Inr r \<Rightarrow> Inr (v @ r)))
             else if d = CHR ''{'' then
               (case ds of
                  [] \<Rightarrow> Inl ValueError
                | e # es \<Rightarrow>
                    if is_id_start e then
                      (case dropWhile is_id_char es of
                         [] \<Rightarrow> Inl ValueError
                       | f # fs \<Rightarrow>
                           if f = CHR ''}'' then
                             (case m (e # takeWhile is_id_char es) of
                                None \<Rightarrow> Inl KeyError
                              | Some v \<Rightarrow>
                                  (case substitute m fs of
                                     Inl e \<Rightarrow> Inl e
                                   | Inr r \<Rightarrow> Inr (v @ r)))
                           else Inl ValueError)
                    else Inl ValueError)
             else Inl ValueError))"
  by pat_completeness auto
termination
proof (relation "measure (\<lambda>(m, s). length s)", simp_all, goal_cases)
  case (1 m c cs d ds v)
  show ?case
    using length_dropWhile_le [of is_id_char ds] by simp
next
  case (2 m c cs d ds e es f fs v)
  have "length (dropWhile is_id_char es) \<le> length es"
    by (rule length_dropWhile_le)
  with 2 show ?case by simp
qed

subsection \<open>\<^verbatim>\<open>GeoPlot.render\<close>\<close>

text \<open>
  The method returns nothing; what it does is write two files. An outcome lists the
  files in the order in which they were opened, each with what it holds when the method
  ends: \<open>JsonFile d\<close> is the text that \<^verbatim>\<open>json.dump(d, f, ensure_ascii=False, indent=2)\<close>
  writes. The HTML file is opened before the arguments of \<^verbatim>\<open>substitute\<close> are
  evaluated, so an exception raised there leaves it empty. Failures of the file system
  are not modelled.
\<close>

datatype 's file_content = JsonFile "'s pyobj" | TextFile string

datatype 's outcome =
    Raised py_error "(string \<times> 's file_content) list"
  | Completed "(string \<times> 's file_content) list"

definition render :: "('st, 's) library \<Rightarrow> geoplot \<Rightarrow> 'st list list \<Rightarrow> 's outcome" where
  "render lib self state_trajectory =
     (let geodata_path = name (simulation_metadata (config self)) @ ''.geojson'';
          geoplot_path = name (simulation_metadata (config self)) @ ''.html''
      in
      case extract_coords_values (get_by_path lib) self state_trajectory of
        Inl e \<Rightarrow> Raised e []
      | Inr (coords, values) \<Rightarrow>
     (let start_time = utcnow lib;
          timestamps = gen_timestamps self start_time
      in
      case construct_geojsons (isoformat lib) coords timestamps values of
        Inl e \<Rightarrow> Raised e []
      | Inr geojsons \<Rightarrow>
     (let geodata = (geodata_path, JsonFile (PList geojsons)) in
      case py_index timestamps 0 of
        Inl e \<Rightarrow> Raised e [geodata, (geoplot_path, TextFile [])]
      | Inr first \<Rightarrow>
     (case py_last timestamps of
        Inl e \<Rightarrow> Raised e [geodata, (geoplot_path, TextFile [])]
      | Inr final \<Rightarrow>
     (case substitute
             (map_of
               [(''accessToken'', cesium_token self),
                (''startTime'', isoformat lib first),
                (''stopTime'', isoformat lib final),
                (''data'', json_dumps lib (PList geojsons)),
                (''visualType'', visualization_type self)])
             geoplot_template of
        Inl e \<Rightarrow> Raised e [geodata, (geoplot_path, TextFile [])]
      | Inr html \<Rightarrow> Completed [geodata, (geoplot_path, TextFile html)])))))"

subsection \<open>The script of the rendered page: \<^verbatim>\<open>interpolateColor\<close>\<close>

text \<open>
  The template's script tests \<^verbatim>\<open>'$visualType' == 'size'\<close>; in the rendered page the
  placeholder has been replaced, so the left operand is the configured text between two
  single quotes. Whether that is a string, and which one, is decided twice: by the
  HTML parser, which finds the end of the script element, and by JavaScript.

  \<open>js_literal_body t\<close> is the string which \<open>t\<close> between single quotes denotes when
  it is one JavaScript string literal: an ordinary character stands for itself, a
  backslash starts an escape sequence, and an unescaped quote or line break ends the
  literal. Single-character escapes, \<^verbatim>\<open>\xHH\<close> and escaped characters without a special
  meaning are evaluated; the result is \<open>None\<close> when the text is not one literal or
  uses another escape (digits, \<^verbatim>\<open>\u\<close>, line continuation).
\<close>

definition hex_digit :: "char \<Rightarrow> nat option" where
  "hex_digit c =
     (if c \<in> set ''0123456789'' then Some (of_char c - 48)
      else if c \<in> set ''abcdef'' then Some (of_char c - 87)
      else if c \<in> set ''ABCDEF'' then Some (of_char c - 55)
      else None)"

definition single_escape :: "char \<Rightarrow> char option" where
  "single_escape c =
     (if c = CHR 0x27 \<or> c = CHR 0x22 \<or> c = CHR 0x5C then Some c
      else if c = CHR ''b'' then Some (CHR 0x08)
      else if c = CHR ''f'' then Some (CHR 0x0C)
      else if c = CHR ''n'' then Some (CHR 0x0A)
      else if c = CHR ''r'' then Some (CHR 0x0D)
      else if c = CHR ''t'' then Some (CHR 0x09)
      else if c = CHR ''v'' then Some (CHR 0x0B)
      else None)"

fun js_literal_body :: "string \<Rightarrow> string option" where
  "js_literal_body [] = Some []"
| "js_literal_body [c] =
     (if c = CHR 0x27 \<or> c = CHR 0x5C \<or> c = CHR 0x0A \<or> c = CHR 0x0D then None
      else Some [c])"
| "js_literal_body (c # d # cs) =
     (if c = CHR 0x27 \<or> c = CHR 0x0A \<or> c = CHR 0x0D then None
      else if c \<noteq> CHR 0x5C then map_option ((#) c) (js_literal_body (d # cs))
      else if d = CHR ''x'' then
        (case cs of
           h # l # rest \<Rightarrow>
             (case (hex_digit h, hex_digit l) of
                (Some a, Some b) \<Rightarrow>
                  map_option ((#) (char_of (16 * a + b))) (js_literal_body rest)
              | _ \<Rightarrow> None)
         | _ \<Rightarrow> None)
      else if d \<in> set ''0123456789u'' \<or> d = CHR 0x0A \<or> d = CHR 0x0D then None
      else (case single_escape d of
              Some e \<Rightarrow> map_option ((#) e) (js_literal_body cs)
            | None \<Rightarrow> map_option ((#) d) (js_literal_body cs)))"

text \<open>
  Inside a script element the HTML parser hands every character on unchanged, except
  that \<^verbatim>\<open><\<close> can start \<^verbatim>\<open></script\<close> (the element ends there, whatever JavaScript would
  make of the text) or \<^verbatim>\<open><!--\<close> (after which the element may not end where the
  template ends it), and that it replaces the character NUL. A text with neither
  character is \<open>html_inert\<close>: the script holds it as written, and it cannot move the
  end of the script.
\<close>

definition html_inert :: "string \<Rightarrow> bool" where
  "html_inert t \<longleftrightarrow> CHR ''<'' \<notin> set t \<and> CHR 0x00 \<notin> set t"

text \<open>
  \<open>js_string_literal t\<close>: the string which \<open>t\<close> between single quotes denotes in the
  script of the page; \<open>None\<close> when \<open>t\<close> is not inert or is not one literal (the script
  is then cut off or does not parse, or the text is outside what is modelled).
\<close>

definition js_string_literal :: "string \<Rightarrow> string option" where
  "js_string_literal t = (if html_inert t then js_literal_body t else None)"

text \<open>
  The script of the page rendered with the texts \<open>accessToken\<close>, \<open>dat\<close>,
  \<open>startTime\<close> and \<open>stopTime\<close> is intact around the tests on the visual type when the
  token and the two times, which the template puts between single quotes, are
  literals there, and the data, which it puts in as an expression, is inert. (That the
  data is a JavaScript expression is not expressed: it is the JSON text that
  \<^verbatim>\<open>json.dumps\<close> returns.)
\<close>

definition script_intact :: "string \<Rightarrow> string \<Rightarrow> string \<Rightarrow> string \<Rightarrow> bool" where
  "script_intact accessToken dat startTime stopTime \<longleftrightarrow>
     js_string_literal accessToken \<noteq> None \<and>
     html_inert dat \<and>
     js_string_literal startTime \<noteq> None \<and>
     js_string_literal stopTime \<noteq> None"

text \<open>
  \<^verbatim>\<open>
  function interpolateColor(color1, color2, factor) {
    const result = new Cesium.Color();
    result.red = color1.red + factor * (color2.red - color1.red);
    result.green = color1.green + factor * (color2.green - color1.green);
    result.blue = color1.blue + factor * (color2.blue - color1.blue);
    result.alpha = '$visualType' == 'size' ? 0.2
                 : color1.alpha + factor * (color2.alpha - color1.alpha);
    return result;
  }
  \<close>
  as it stands in the page \<open>rendered_html accessToken vt dat startTime stopTime\<close>. The
  result is \<open>None\<close> when the script of that page is not intact or \<open>vt\<close> between
  quotes is not a literal in it: the function is then not defined by the page, or not
  the one modelled. Numbers are real numbers: the rounding of JavaScript's arithmetic is
  not modelled.
\<close>

record color =
  red :: real
  green :: real
  blue :: real
  alpha :: real

definition interpolateColor ::
  "string \<Rightarrow> string \<Rightarrow> string \<Rightarrow> string \<Rightarrow> string \<Rightarrow> color \<Rightarrow> color \<Rightarrow> real \<Rightarrow> color option" where
  "interpolateColor accessToken vt dat startTime stopTime color1 color2 factor =
     (if \<not> script_intact accessToken dat startTime stopTime then None
      else
        (case js_string_literal vt of
           None \<Rightarrow> None
         | Some visualType \<Rightarrow>
             Some \<lparr>red = red color1 + factor * (red color2 - red color1),
                   green = green color1 + factor * (green color2 - green color1),
                   blue = blue color1 + factor * (blue color2 - blue color1),
                   alpha = (if visualType = ''size'' then 0.2
                            else alpha color1 + factor * (alpha color2 - alpha color1))\<rparr>))"

subsection \<open>A path resolver\<close>

text \<open>
  Modelled from the spec: the Path Resolver, \<^verbatim>\<open>get_by_path\<close> of
  \<^verbatim>\<open>agent_torch.core.helpers\<close>, which is not among the sources. A state is a nested
  mapping with array values at its leaves. Each segment of the path indexes into the
  current value, by key in a mapping and by decimal position in a sequence; the lookup
  fails with \<open>PathNotFound\<close> when a segment is absent or does not fit the value
  (indexing a number), and when the path ends at a mapping instead of a value.
\<close>

datatype 's state = Value "'s nd" | Mapping "(string \<times> 's state) list"

fun decimal :: "string \<Rightarrow> nat \<Rightarrow> nat option" where
  "decimal [] acc = Some acc"
| "decimal (c # cs) acc =
     (if c \<in> set ''0123456789'' then decimal cs (10 * acc + (of_char c - 48)) else None)"

fun index_nd :: "'s nd \<Rightarrow> string list \<Rightarrow> py_error + 's nd" where
  "index_nd v [] = Inr v"
| "index_nd (Sc x) (k # ks) = Inl PathNotFound"
| "index_nd (Arr vs) (k # ks) =
     (case (if k = [] then None else decimal k 0) of
        None \<Rightarrow> Inl PathNotFound
      | Some n \<Rightarrow> if n < length vs then index_nd (vs ! n) ks else Inl PathNotFound)"

fun resolve :: "('s state, 's) resolver" where
  "resolve (Value v) ks = index_nd v ks"
| "resolve (Mapping kvs) [] = Inl PathNotFound"
| "resolve (Mapping kvs) (k # ks) =
     (case map_of kvs k of
        None \<Rightarrow> Inl PathNotFound
      | Some s \<Rightarrow> resolve s ks)"

subsection \<open>Example inputs\<close>

text \<open>
  The end-to-end scenario of the specification: three episodes of one state each, the
  coordinates under \<^verbatim>\<open>agents/pos\<close> and the feature under \<^verbatim>\<open>agents/val\<close>,
  \<open>step_time = 60\<close>, three episodes of one step. The library of the examples resolves
  paths with \<open>resolve\<close>, reads the clock at \<open>1000\<close>, prints a timestamp as its count
  of nanoseconds in decimal, and prints every JSON document as the text \<^verbatim>\<open>[]\<close>.
\<close>

fun digits :: "nat \<Rightarrow> string" where
  "digits n =
     (if n < 10 then [char_of (48 + n)]
      else digits (n div 10) @ [char_of (48 + n mod 10)])"

definition example_library :: "(real state, real) library" where
  "example_library =
     \<lparr>get_by_path = resolve,
      utcnow = 1000,
      isoformat = (\<lambda>t. digits (nat t)),
      json_dumps = (\<lambda>d. ''[]'')\<rparr>"

definition example_geoplot :: geoplot where
  "example_geoplot =
     \<lparr>config = \<lparr>simulation_metadata =
        \<lparr>name = ''sim'', num_episodes = 3, num_steps_per_episode = 1\<rparr>\<rparr>,
      cesium_token = ''token'',
      step_time = 60,
      entity_position = ''agents/pos'',
      entity_property = ''agents/val'',
      visualization_type = ''size''\<rparr>"

definition example_state :: "real nd \<Rightarrow> real nd \<Rightarrow> real state" where
  "example_state pos val =
     Mapping [(''agents'', Mapping [(''pos'', Value pos), (''val'', Value val)])]"

definition example_trajectory :: "real state list list" where
  "example_trajectory =
     [[example_state (Arr [Arr [Sc 10, Sc 20], Arr [Sc 30, Sc 40]]) (Arr [Sc 1, Sc 2])],
      [example_state (Arr [Arr [Sc 11, Sc 21], Arr [Sc 31, Sc 41]]) (Arr [Sc 3, Sc 4])],
      [example_state (Arr [Arr [Sc 12, Sc 22], Arr [Sc 32, Sc 42]]) (Arr [Sc 5, Sc 6])]]"

section \<open>Properties\<close>

subsection \<open>numpy: an array gives back the list it was made from\<close>

lemma np_shape_Arr:
  "np_shape (Arr vs) = Some s \<Longrightarrow>
     \<exists>sh. s = length vs # sh \<and> (\<forall>u\<in>set vs. np_shape u = Some sh)"
  by (cases vs) (auto split: option.splits if_splits simp: list_all_iff)

lemma take_drop_concat_nth:
  "\<forall>u\<in>set vs. length (f u) = m \<Longrightarrow> k < length vs \<Longrightarrow>
     take m (drop (k * m) (concat (map f vs))) = f (vs ! k)"
proof (induction vs arbitrary: k)
  case Nil
  then show ?case by simp
next
  case (Cons v vs)
  show ?case
  proof (cases k)
    case 0
    with Cons.prems show ?thesis by simp
  next
    case (Suc j)
    with Cons.prems have "j < length vs" by simp
    with Cons have "take m (drop (j * m) (concat (map f vs))) = f (vs ! j)" by simp
    with Suc Cons.prems show ?thesis by simp
  qed
qed

lemma length_concat_const:
  "\<forall>u\<in>set vs. length (f u) = m \<Longrightarrow> length (concat (map f vs)) = length vs * m"
  by (induction vs) simp_all

lemma np_roundtrip:
  "np_shape v = Some s \<Longrightarrow> unflat s (np_flat v) = v \<and> length (np_flat v) = prod_list s"
proof (induction v arbitrary: s)
  case (Sc x)
  then show ?case by auto
next
  case (Arr vs)
  from np_shape_Arr [OF Arr.prems] obtain sh where
    s: "s = length vs # sh" and all: "\<forall>u\<in>set vs. np_shape u = Some sh"
    by blast
  from Arr.IH all have un: "\<forall>u\<in>set vs. unflat sh (np_flat u) = u"
    and len: "\<forall>u\<in>set vs. length (np_flat u) = prod_list sh"
    by blast+
  have "map (\<lambda>k. unflat sh (take (prod_list sh)
            (drop (k * prod_list sh) (concat (map np_flat vs))))) [0..<length vs]
        = map (\<lambda>k. vs ! k) [0..<length vs]"
    using un len by (simp add: take_drop_concat_nth)
  then have "unflat s (np_flat (Arr vs)) = Arr vs"
    by (simp add: s map_nth)
  moreover have "length (np_flat (Arr vs)) = prod_list s"
    using len by (simp add: s length_concat_const)
  ultimately show ?case by simp
qed

lemma tolist_np_array: "np_array v = Inr a \<Longrightarrow> tolist a = v"
  using np_roundtrip [of v]
  by (auto simp: np_array_def tolist_def split: option.splits)

lemma unflat_1d: "unflat [length d] d = Arr (map Sc d)"
proof -
  have "unflat [] (take 1 (drop k d)) = Sc (d ! k)" if "k < length d" for k
    using that by (simp flip: Cons_nth_drop_Suc)
  then have "map (\<lambda>k. unflat [] (take 1 (drop k d))) [0..<length d] = map Sc d"
    by (intro nth_equalityI) simp_all
  then show ?thesis by simp
qed

lemma tolist_flatten: "np_array v = Inr a \<Longrightarrow> tolist (flatten a) = Arr (map Sc (np_flat v))"
proof -
  assume "np_array v = Inr a"
  then have "data a = np_flat v"
    by (auto simp: np_array_def split: option.splits)
  moreover have "tolist (flatten a) = unflat [length (data a)] (data a)"
    by (simp add: tolist_def flatten_def)
  ultimately show ?thesis by (simp only: unflat_1d)
qed

subsection \<open>Substitution into the template\<close>

lemma geoplot_template_split:
  "geoplot_template =
     tpl_upto_token @ ''$accessToken'' @
     tpl_upto_alpha_test @ ''$visualType'' @
     tpl_upto_size_test @ ''$visualType'' @
     tpl_upto_sample_test @ ''$visualType'' @
     tpl_upto_data @ ''$data'' @
     tpl_upto_start @ ''$startTime'' @
     tpl_upto_stop @ ''$stopTime'' @
     tpl_tail"
  by (simp add: geoplot_template_def tpl_upto_token_def tpl_upto_alpha_test_def
      tpl_upto_size_test_def tpl_upto_sample_test_def tpl_upto_data_def tpl_upto_start_def
      tpl_upto_stop_def tpl_tail_def)

lemma tpl_no_dollar:
  "CHR ''$'' \<notin> set tpl_upto_token"
  "CHR ''$'' \<notin> set tpl_upto_alpha_test"
  "CHR ''$'' \<notin> set tpl_upto_size_test"
  "CHR ''$'' \<notin> set tpl_upto_sample_test"
  "CHR ''$'' \<notin> set tpl_upto_data"
  "CHR ''$'' \<notin> set tpl_upto_start"
  "CHR ''$'' \<notin> set tpl_upto_stop"
  "CHR ''$'' \<notin> set tpl_tail"
  by (simp_all add: tpl_upto_token_def tpl_upto_alpha_test_def tpl_upto_size_test_def tpl_upto_sample_test_def tpl_upto_data_def tpl_upto_start_def tpl_upto_stop_def tpl_tail_def)

lemma tpl_starts:
  "tpl_upto_alpha_test \<noteq> [] \<and> \<not> is_id_char (hd tpl_upto_alpha_test)"
  "tpl_upto_size_test \<noteq> [] \<and> \<not> is_id_char (hd tpl_upto_size_test)"
  "tpl_upto_sample_test \<noteq> [] \<and> \<not> is_id_char (hd tpl_upto_sample_test)"
  "tpl_upto_data \<noteq> [] \<and> \<not> is_id_char (hd tpl_upto_data)"
  "tpl_upto_start \<noteq> [] \<and> \<not> is_id_char (hd tpl_upto_start)"
  "tpl_upto_stop \<noteq> [] \<and> \<not> is_id_char (hd tpl_upto_stop)"
  "tpl_tail \<noteq> [] \<and> \<not> is_id_char (hd tpl_tail)"
  by (simp_all add: is_id_char_def is_id_start_def tpl_upto_alpha_test_def tpl_upto_size_test_def tpl_upto_sample_test_def tpl_upto_data_def tpl_upto_start_def tpl_upto_stop_def tpl_tail_def)


lemma substitute_literal:
  "CHR ''$'' \<notin> set l \<Longrightarrow>
     substitute m (l @ s) = (case substitute m s of Inl e \<Rightarrow> Inl e | Inr r \<Rightarrow> Inr (l @ r))"
  by (induction l) (auto split: sum.splits)

lemma substitute_named:
  assumes "is_id_start d" and "\<forall>c\<in>set ds. is_id_char c"
    and "s \<noteq> [] \<and> \<not> is_id_char (hd s)" and "m (d # ds) = Some v"
  shows "substitute m (CHR ''$'' # d # ds @ s) =
     (case substitute m s of Inl e \<Rightarrow> Inl e | Inr r \<Rightarrow> Inr (v @ r))"
proof -
  from assms(3) obtain c s' where s: "s = c # s'" and c: "\<not> is_id_char c"
    by (cases s) auto
  from assms(2) c have "takeWhile is_id_char (ds @ s) = ds" "dropWhile is_id_char (ds @ s) = s"
    by (simp_all add: s takeWhile_append2 dropWhile_append2)
  moreover from assms(1) have "d \<noteq> CHR ''$''"
    by (auto simp: is_id_start_def)
  ultimately show ?thesis
    using assms(1,4) by simp
qed

lemma substitute_segment:
  assumes "CHR ''$'' \<notin> set l" and "is_id_start d" and "\<forall>c\<in>set ds. is_id_char c"
    and "s \<noteq> [] \<and> \<not> is_id_char (hd s)" and "m (d # ds) = Some v"
    and "substitute m s = Inr r"
  shows "substitute m (l @ CHR ''$'' # d # ds @ s) = Inr (l @ v @ r)"
proof -
  have "substitute m (CHR ''$'' # d # ds @ s) =
      (case substitute m s of Inl e \<Rightarrow> Inl e | Inr r \<Rightarrow> Inr (v @ r))"
    using assms(2-5) by (rule substitute_named)
  then have "substitute m (CHR ''$'' # d # ds @ s) = Inr (v @ r)"
    by (simp only: assms(6) sum.case)
  with substitute_literal [OF assms(1), of m "CHR ''$'' # d # ds @ s"] show ?thesis
    by (simp only: sum.case)
qed

lemma substitute_geoplot_template:
  fixes tok t0 t1 d vt :: string
  defines "m \<equiv> map_of [(''accessToken'', tok), (''startTime'', t0), (''stopTime'', t1),
                         (''data'', d), (''visualType'', vt)]"
  shows "substitute m geoplot_template =
     Inr (tpl_upto_token @ tok @
          tpl_upto_alpha_test @ vt @
          tpl_upto_size_test @ vt @
          tpl_upto_sample_test @ vt @
          tpl_upto_data @ d @
          tpl_upto_start @ t0 @
          tpl_upto_stop @ t1 @
          tpl_tail)"
proof -
  have idc: "\<forall>c\<in>set ''ccessToken''. is_id_char c" "\<forall>c\<in>set ''isualType''. is_id_char c"
    "\<forall>c\<in>set ''ata''. is_id_char c" "\<forall>c\<in>set ''tartTime''. is_id_char c"
    "\<forall>c\<in>set ''topTime''. is_id_char c"
    "is_id_start CHR ''a''" "is_id_start CHR ''v''" "is_id_start CHR ''d''" "is_id_start CHR ''s''"
    by (simp_all add: is_id_char_def is_id_start_def)
  have s7: "substitute m tpl_tail = Inr tpl_tail"
    using substitute_literal [of tpl_tail m "[]"] tpl_no_dollar by simp
  have s6: "substitute m (tpl_upto_stop @ ''$stopTime'' @ tpl_tail) = Inr (tpl_upto_stop @ t1 @ tpl_tail)"
    using substitute_segment [of tpl_upto_stop "CHR ''s''" "''topTime''" tpl_tail m t1, OF _ _ _ _ _ s7]
      tpl_no_dollar tpl_starts idc by (simp add: m_def)
  have s5: "substitute m (tpl_upto_start @ ''$startTime'' @ tpl_upto_stop @ ''$stopTime'' @ tpl_tail)
      = Inr (tpl_upto_start @ t0 @ tpl_upto_stop @ t1 @ tpl_tail)"
    using substitute_segment [of tpl_upto_start "CHR ''s''" "''tartTime''" _ m t0, OF _ _ _ _ _ s6]
      tpl_no_dollar tpl_starts idc by (simp add: m_def)
  have s4: "substitute m (tpl_upto_data @ ''$data'' @ tpl_upto_start @ ''$startTime'' @
        tpl_upto_stop @ ''$stopTime'' @ tpl_tail)
      = Inr (tpl_upto_data @ d @ tpl_upto_start @ t0 @ tpl_upto_stop @ t1 @ tpl_tail)"
    using substitute_segment [of tpl_upto_data "CHR ''d''" "''ata''" _ m d, OF _ _ _ _ _ s5]
      tpl_no_dollar tpl_starts idc by (simp add: m_def)
  have s3: "substitute m (tpl_upto_sample_test @ ''$visualType'' @ tpl_upto_data @ ''$data'' @
        tpl_upto_start @ ''$startTime'' @ tpl_upto_stop @ ''$stopTime'' @ tpl_tail)
      = Inr (tpl_upto_sample_test @ vt @ tpl_upto_data @ d @ tpl_upto_start @ t0 @
             tpl_upto_stop @ t1 @ tpl_tail)"
    using substitute_segment [of tpl_upto_sample_test "CHR ''v''" "''isualType''" _ m vt, OF _ _ _ _ _ s4]
      tpl_no_dollar tpl_starts idc by (simp add: m_def)
  have s2: "substitute m (tpl_upto_size_test @ ''$visualType'' @
        tpl_upto_sample_test @ ''$visualType'' @ tpl_upto_data @ ''$data'' @
        tpl_upto_start @ ''$startTime'' @ tpl_upto_stop @ ''$stopTime'' @ tpl_tail)
      = Inr (tpl_upto_size_test @ vt @ tpl_upto_sample_test @ vt @ tpl_upto_data @ d @
             tpl_upto_start @ t0 @ tpl_upto_stop @ t1 @ tpl_tail)"
    using substitute_segment [of tpl_upto_size_test "CHR ''v''" "''isualType''" _ m vt, OF _ _ _ _ _ s3]
      tpl_no_dollar tpl_starts idc by (simp add: m_def)
  have s1: "substitute m (tpl_upto_alpha_test @ ''$visualType'' @
        tpl_upto_size_test @ ''$visualType'' @
        tpl_upto_sample_test @ ''$visualType'' @ tpl_upto_data @ ''$data'' @
        tpl_upto_start @ ''$startTime'' @ tpl_upto_stop @ ''$stopTime'' @ tpl_tail)
      = Inr (tpl_upto_alpha_test @ vt @ tpl_upto_size_test @ vt @ tpl_upto_sample_test @ vt @
             tpl_upto_data @ d @ tpl_upto_start @ t0 @ tpl_upto_stop @ t1 @ tpl_tail)"
    using substitute_segment [of tpl_upto_alpha_test "CHR ''v''" "''isualType''" _ m vt, OF _ _ _ _ _ s2]
      tpl_no_dollar tpl_starts idc by (simp add: m_def)
  have s0: "substitute m (tpl_upto_token @ ''$accessToken'' @ tpl_upto_alpha_test @ ''$visualType'' @
        tpl_upto_size_test @ ''$visualType'' @
        tpl_upto_sample_test @ ''$visualType'' @ tpl_upto_data @ ''$data'' @
        tpl_upto_start @ ''$startTime'' @ tpl_upto_stop @ ''$stopTime'' @ tpl_tail)
      = Inr (tpl_upto_token @ tok @ tpl_upto_alpha_test @ vt @ tpl_upto_size_test @ vt @
             tpl_upto_sample_test @ vt @
             tpl_upto_data @ d @ tpl_upto_start @ t0 @ tpl_upto_stop @ t1 @ tpl_tail)"
    using substitute_segment [of tpl_upto_token "CHR ''a''" "''ccessToken''" _ m tok, OF _ _ _ _ _ s1]
      tpl_no_dollar tpl_starts idc by (simp add: m_def)
  show ?thesis
    unfolding geoplot_template_split by (rule s0)
qed

subsection \<open>The timestamp sequence\<close>





subsection \<open>The extraction loop\<close>

lemma extract_loop_step:
  assumes "extract_loop gbp self traj (i # rest) c0 vs0 = Inr r"
  obtains p q where "traj ! i \<noteq> []"
    and "read_var gbp (last (traj ! i)) (entity_position self) = Inr p"
    and "read_var gbp (last (traj ! i)) (entity_property self) = Inr q"
    and "extract_loop gbp self traj rest p (vs0 @ [Arr (map Sc (np_flat q))]) = Inr r"
proof -
  from assms obtain s where s: "py_last (traj ! i) = Inr s"
    by (auto split: sum.splits)
  then have ne: "traj ! i \<noteq> []" and last: "s = last (traj ! i)"
    by (auto simp: py_last_def split: list.splits)
  from assms s obtain p where p: "read_var gbp s (entity_position self) = Inr p"
    by (auto split: sum.splits)
  from assms s p obtain a where a: "np_array p = Inr a"
    by (auto split: sum.splits)
  from assms s p a obtain q where q: "read_var gbp s (entity_property self) = Inr q"
    by (auto split: sum.splits)
  from assms s p a q obtain b where b: "np_array q = Inr b"
    by (auto split: sum.splits)
  from assms s p a q b
  have "extract_loop gbp self traj rest (tolist a) (vs0 @ [tolist (flatten b)]) = Inr r"
    by simp
  then have "extract_loop gbp self traj rest p (vs0 @ [Arr (map Sc (np_flat q))]) = Inr r"
    by (simp only: tolist_np_array [OF a] tolist_flatten [OF b])
  with ne p q last show thesis
    by (intro that) simp_all
qed

lemma extract_loop_values:
  "extract_loop gbp self traj idx c0 vs0 = Inr (coords, values) \<Longrightarrow>
     \<exists>qs. length qs = length idx \<and>
          values = vs0 @ map (\<lambda>q. Arr (map Sc (np_flat q))) qs \<and>
          (\<forall>j<length idx. traj ! (idx ! j) \<noteq> [] \<and>
             read_var gbp (last (traj ! (idx ! j))) (entity_property self) = Inr (qs ! j))"
proof (induction idx arbitrary: c0 vs0)
  case Nil
  then show ?case by simp
next
  case (Cons i rest)
  from Cons.prems obtain p q where ne: "traj ! i \<noteq> []"
    and q: "read_var gbp (last (traj ! i)) (entity_property self) = Inr q"
    and rest: "extract_loop gbp self traj rest p (vs0 @ [Arr (map Sc (np_flat q))])
                 = Inr (coords, values)"
    by (rule extract_loop_step)
  from Cons.IH [OF rest] obtain qs where qs: "length qs = length rest"
    "values = (vs0 @ [Arr (map Sc (np_flat q))]) @ map (\<lambda>q. Arr (map Sc (np_flat q))) qs"
    "\<forall>j<length rest. traj ! (rest ! j) \<noteq> [] \<and>
        read_var gbp (last (traj ! (rest ! j))) (entity_property self) = Inr (qs ! j)"
    by blast
  have "\<forall>j<length (i # rest). traj ! ((i # rest) ! j) \<noteq> [] \<and>
      read_var gbp (last (traj ! ((i # rest) ! j))) (entity_property self) = Inr ((q # qs) ! j)"
    using ne q qs(3) by (auto simp: nth_Cons split: nat.splits)
  moreover have "length (q # qs) = length (i # rest)"
    using qs(1) by simp
  moreover have "values = vs0 @ map (\<lambda>q. Arr (map Sc (np_flat q))) (q # qs)"
    using qs(2) by simp
  ultimately show ?case by blast
qed

lemma extract_loop_coords:
  "extract_loop gbp self traj idx c0 vs0 = Inr (coords, values) \<Longrightarrow> idx \<noteq> [] \<Longrightarrow>
     read_var gbp (last (traj ! last idx)) (entity_position self) = Inr coords"
proof (induction idx arbitrary: c0 vs0)
  case Nil
  then show ?case by simp
next
  case (Cons i rest)
  from Cons.prems(1) obtain p q
    where p: "read_var gbp (last (traj ! i)) (entity_position self) = Inr p"
    and rest: "extract_loop gbp self traj rest p (vs0 @ [Arr (map Sc (np_flat q))])
                 = Inr (coords, values)"
    by (rule extract_loop_step)
  show ?case
  proof (cases rest)
    case Nil
    with rest p show ?thesis by simp
  next
    case (Cons j js)
    with Cons.IH [OF rest] show ?thesis by simp
  qed
qed

lemma extract_loop_cong:
  "\<forall>i\<in>set idx. py_last (traj' ! i) = py_last (traj ! i) \<Longrightarrow>
     extract_loop gbp self traj' idx c0 vs0 = extract_loop gbp self traj idx c0 vs0"
  by (induction idx arbitrary: c0 vs0) (simp_all split: sum.splits)

text \<open>The extraction on the example trajectory.\<close>

lemma read_example_pos:
  "read_var resolve (example_state pos val) ''agents/pos'' = Inr pos"
  by (simp add: read_var_def example_state_def)

lemma read_example_val:
  "read_var resolve (example_state pos val) ''agents/val'' = Inr val"
  by (simp add: read_var_def example_state_def)

lemma np_array_pairs:
  "np_array (Arr [Arr [Sc a, Sc b], Arr [Sc c, Sc d]]) =
     Inr \<lparr>shape = [2, 2], data = [a, b, c, d]\<rparr>"
  "np_array (Arr [Sc a, Sc b]) = Inr \<lparr>shape = [2], data = [a, b]\<rparr>"
  by (simp_all add: np_array_def)

lemma example_extract:
  "extract_coords_values resolve example_geoplot example_trajectory =
     Inr (Arr [Arr [Sc 11, Sc 21], Arr [Sc 31, Sc 41]], [Arr [Sc 1, Sc 2], Arr [Sc 3, Sc 4]])"
proof -
  have idx: "[0..<length example_trajectory - 1] = [0, 1]"
    by (simp add: example_trajectory_def upt_conv_Cons)
  have e: "entity_position example_geoplot = ''agents/pos''"
    "entity_property example_geoplot = ''agents/val''"
    by (simp_all add: example_geoplot_def)
  have t: "tolist \<lparr>shape = [2, 2], data = [a, b, c, d]\<rparr> = Arr [Arr [Sc a, Sc b], Arr [Sc c, Sc d]]"
    "tolist (flatten \<lparr>shape = [2], data = [a, b]\<rparr>) = Arr [Sc a, Sc b]" for a b c d :: real
    by (simp_all add: tolist_def flatten_def upt_conv_Cons eval_nat_numeral)
  show ?thesis
    unfolding extract_coords_values_def idx
    by (simp add: example_trajectory_def py_last_def e read_example_pos read_example_val
        np_array_pairs t)
qed
text \<open>
  C2. When the extraction succeeds on a trajectory of at least two episodes, it has
  visited the episodes \<open>0\<close> to \<open>length traj - 2\<close>: each of them is non-empty, and
  \<open>values\<close> holds, in episode order, one entry per visited episode, the flattened value
  of the feature path on that episode's last state. \<open>coords\<close> is what the coordinate
  path resolves to on the last state of the second-to-last episode. Nothing else of the
  trajectory is read: any trajectory of the same length whose episodes before the last
  one have the same last states (or are empty where this one's are) gives the same
  result, whatever its last episode and its earlier states are.
\<close>

theorem extract_visits_all_but_last:
  assumes "extract_coords_values gbp self traj = Inr (coords, values)"
    and "2 \<le> length traj"
  shows "length values = length traj - 1 \<and>
    (\<forall>i<length traj - 1. traj ! i \<noteq> [] \<and>
       (\<exists>q. read_var gbp (last (traj ! i)) (entity_property self) = Inr q \<and>
            values ! i = Arr (map Sc (np_flat q)))) \<and>
    read_var gbp (last (traj ! (length traj - 2))) (entity_position self) = Inr coords \<and>
    (\<forall>traj'. length traj' = length traj \<and>
       (\<forall>i<length traj - 1. py_last (traj' ! i) = py_last (traj ! i)) \<longrightarrow>
       extract_coords_values gbp self traj' = Inr (coords, values))"
proof -
  let ?idx = "[0..<length traj - 1]"
  from assms(1) have loop: "extract_loop gbp self traj ?idx (Arr []) [] = Inr (coords, values)"
    by (simp add: extract_coords_values_def)
  from extract_loop_values [OF loop] obtain qs where qs: "length qs = length traj - 1"
    "values = map (\<lambda>q. Arr (map Sc (np_flat q))) qs"
    "\<forall>j<length traj - 1. traj ! j \<noteq> [] \<and>
        read_var gbp (last (traj ! j)) (entity_property self) = Inr (qs ! j)"
    by auto
  have len: "length values = length traj - 1"
    using qs by simp
  have vals: "\<forall>i<length traj - 1. traj ! i \<noteq> [] \<and>
       (\<exists>q. read_var gbp (last (traj ! i)) (entity_property self) = Inr q \<and>
            values ! i = Arr (map Sc (np_flat q)))"
    using qs by simp
  from assms(2) have "?idx \<noteq> []" and "last ?idx = length traj - 2"
    by (simp_all add: last_upt)
  with extract_loop_coords [OF loop]
  have crd: "read_var gbp (last (traj ! (length traj - 2))) (entity_position self) = Inr coords"
    by simp
  have same: "extract_coords_values gbp self traj' = Inr (coords, values)"
    if "length traj' = length traj"
      and "\<forall>i<length traj - 1. py_last (traj' ! i) = py_last (traj ! i)" for traj'
    using that extract_loop_cong [of ?idx traj' traj gbp self "Arr []" "[]"] loop
    by (simp add: extract_coords_values_def)
  from len vals crd same show ?thesis by blast
qed

theorem extract_visits_all_but_last_witness:
  "extract_coords_values resolve example_geoplot example_trajectory =
     Inr (Arr [Arr [Sc 11, Sc 21], Arr [Sc 31, Sc 41]], [Arr [Sc 1, Sc 2], Arr [Sc 3, Sc 4]]) \<and>
   2 \<le> length example_trajectory \<and>
   read_var resolve (last (example_trajectory ! 1)) (entity_position example_geoplot) =
     Inr (Arr [Arr [Sc 11, Sc 21], Arr [Sc 31, Sc 41]]) \<and>
   extract_coords_values resolve example_geoplot
       [example_trajectory ! 0, example_trajectory ! 1, []] =
     Inr (Arr [Arr [Sc 11, Sc 21], Arr [Sc 31, Sc 41]], [Arr [Sc 1, Sc 2], Arr [Sc 3, Sc 4]])"
proof -
  let ?t' = "[example_trajectory ! 0, example_trajectory ! 1, []]"
  have h: "extract_coords_values resolve example_geoplot example_trajectory =
     Inr (Arr [Arr [Sc 11, Sc 21], Arr [Sc 31, Sc 41]], [Arr [Sc 1, Sc 2], Arr [Sc 3, Sc 4]])"
    by (rule example_extract)
  have l: "2 \<le> length example_trajectory"
    by (simp add: example_trajectory_def)
  note T = extract_visits_all_but_last [OF h l]
  from T have c: "read_var resolve (last (example_trajectory ! (length example_trajectory - 2)))
      (entity_position example_geoplot) = Inr (Arr [Arr [Sc 11, Sc 21], Arr [Sc 31, Sc 41]])"
    by blast
  from T have d: "length ?t' = length example_trajectory \<and>
      (\<forall>i<length example_trajectory - 1. py_last (?t' ! i) = py_last (example_trajectory ! i)) \<longrightarrow>
      extract_coords_values resolve example_geoplot ?t' =
        Inr (Arr [Arr [Sc 11, Sc 21], Arr [Sc 31, Sc 41]], [Arr [Sc 1, Sc 2], Arr [Sc 3, Sc 4]])"
    by blast
  have len: "length example_trajectory = 3"
    by (simp add: example_trajectory_def)
  have "\<forall>i<length example_trajectory - 1. py_last (?t' ! i) = py_last (example_trajectory ! i)"
    by (simp add: len All_less_Suc eval_nat_numeral)
  with d len have "extract_coords_values resolve example_geoplot ?t' =
        Inr (Arr [Arr [Sc 11, Sc 21], Arr [Sc 31, Sc 41]], [Arr [Sc 1, Sc 2], Arr [Sc 3, Sc 4]])"
    by simp
  moreover from c len have "read_var resolve (last (example_trajectory ! 1))
      (entity_position example_geoplot) = Inr (Arr [Arr [Sc 11, Sc 21], Arr [Sc 31, Sc 41]])"
    by simp
  ultimately show ?thesis
    using h l by blast
qed

subsection \<open>The feature loops\<close>

lemma nd_getitem_Inr: "nd_getitem v i = Inr x \<longleftrightarrow> i < length (nd_items v) \<and> x = nd_items v ! i"
  by (cases v) (auto simp: py_index_def)

lemma nd_getitem_Arr_Inl: "nd_getitem (Arr vs) i = Inl e \<longleftrightarrow> length vs \<le> i \<and> e = IndexError"
  by (auto simp: py_index_def)

text \<open>One feature, as the loop body builds it.\<close>

lemma features_loop_Inr:
  "features_loop isofmt i coord tv acc = Inr fs \<Longrightarrow>
     fs = acc @ map (\<lambda>(time, value_list).
            feature_obj (of_nd (nd_items coord ! 1)) (of_nd (nd_items coord ! 0))
              (of_nd (nd_items value_list ! i)) (isofmt time)) tv \<and>
     (tv \<noteq> [] \<longrightarrow> 2 \<le> length (nd_items coord)) \<and>
     (\<forall>(time, value_list)\<in>set tv. i < length (nd_items value_list))"
proof (induction tv arbitrary: acc)
  case Nil
  then show ?case by simp
next
  case (Cons a tv)
  obtain time value_list where a: "a = (time, value_list)"
    by (cases a)
  from Cons.prems obtain c1 c0 v where c1: "nd_getitem coord 1 = Inr c1"
    and c0: "nd_getitem coord 0 = Inr c0" and v: "nd_getitem value_list i = Inr v"
    and rest: "features_loop isofmt i coord tv
                 (acc @ [feature_obj (of_nd c1) (of_nd c0) (of_nd v) (isofmt time)]) = Inr fs"
    unfolding a by (auto split: sum.splits)
  from c1 c0 v have "1 < length (nd_items coord)" "c1 = nd_items coord ! 1"
    "c0 = nd_items coord ! 0" "i < length (nd_items value_list)" "v = nd_items value_list ! i"
    by (simp_all add: nd_getitem_Inr)
  with Cons.IH [OF rest] show ?case
    unfolding a by simp
qed

lemma features_loop_shaped:
  assumes "2 \<le> length (nd_items coord)" and "\<forall>(time, value_list)\<in>set tv. \<exists>vs. value_list = Arr vs"
  shows "features_loop isofmt i coord tv acc =
     (if \<forall>(time, value_list)\<in>set tv. i < length (nd_items value_list)
      then Inr (acc @ map (\<lambda>(time, value_list).
            feature_obj (of_nd (nd_items coord ! 1)) (of_nd (nd_items coord ! 0))
              (of_nd (nd_items value_list ! i)) (isofmt time)) tv)
      else Inl IndexError)"
  using assms(2)
proof (induction tv arbitrary: acc)
  case Nil
  then show ?case by simp
next
  case (Cons a tv)
  obtain time value_list where a: "a = (time, value_list)"
    by (cases a)
  from Cons.prems a obtain vs where vs: "value_list = Arr vs"
    by auto
  from assms(1) obtain xs where xs: "coord = Arr xs" "2 \<le> length xs"
    by (cases coord) auto
  from Cons.prems have tv: "\<forall>(time, value_list)\<in>set tv. \<exists>vs. value_list = Arr vs"
    by simp
  show ?case
    unfolding a using xs vs Cons.IH [OF tv] by (auto simp: py_index_def)
qed

lemma geojsons_loop_Inr:
  "geojsons_loop isofmt ics ts values acc = Inr gs \<Longrightarrow>
     gs = acc @ map (\<lambda>(i, coord). collection_obj
            (map (\<lambda>(time, value_list).
               feature_obj (of_nd (nd_items coord ! 1)) (of_nd (nd_items coord ! 0))
                 (of_nd (nd_items value_list ! i)) (isofmt time)) (zip ts values))) ics \<and>
     (\<forall>(i, coord)\<in>set ics.
        (zip ts values \<noteq> [] \<longrightarrow> 2 \<le> length (nd_items coord)) \<and>
        (\<forall>(time, value_list)\<in>set (zip ts values). i < length (nd_items value_list)))"
proof (induction ics arbitrary: acc)
  case Nil
  then show ?case by simp
next
  case (Cons a ics)
  obtain i coord where a: "a = (i, coord)"
    by (cases a)
  from Cons.prems obtain fs where fs: "features_loop isofmt i coord (zip ts values) [] = Inr fs"
    and rest: "geojsons_loop isofmt ics ts values (acc @ [collection_obj fs]) = Inr gs"
    unfolding a by (auto split: sum.splits)
  from features_loop_Inr [OF fs] Cons.IH [OF rest] show ?case
    unfolding a by simp
qed

lemma geojsons_loop_shaped:
  assumes "\<forall>(i, coord)\<in>set ics. 2 \<le> length (nd_items coord)"
    and "\<forall>value_list\<in>set values. \<exists>vs. value_list = Arr vs"
  shows "geojsons_loop isofmt ics ts values acc =
     (if \<forall>(i, coord)\<in>set ics. \<forall>(time, value_list)\<in>set (zip ts values).
            i < length (nd_items value_list)
      then Inr (acc @ map (\<lambda>(i, coord). collection_obj
            (map (\<lambda>(time, value_list).
               feature_obj (of_nd (nd_items coord ! 1)) (of_nd (nd_items coord ! 0))
                 (of_nd (nd_items value_list ! i)) (isofmt time)) (zip ts values))) ics)
      else Inl IndexError)"
  using assms(1)
proof (induction ics arbitrary: acc)
  case Nil
  then show ?case by simp
next
  case (Cons a ics)
  obtain i coord where a: "a = (i, coord)"
    by (cases a)
  from assms(2) have tv: "\<forall>(time, value_list)\<in>set (zip ts values). \<exists>vs. value_list = Arr vs"
    by (auto dest: set_zip_rightD)
  from Cons.prems a have c: "2 \<le> length (nd_items coord)"
    and ics: "\<forall>(i, coord)\<in>set ics. 2 \<le> length (nd_items coord)"
    by simp_all
  show ?case
    unfolding a using features_loop_shaped [OF c tv, of isofmt i "[]"] Cons.IH [OF ics]
    by simp
qed

lemma construct_geojsons_Inr:
  assumes "construct_geojsons isofmt coords ts values = Inr gs"
  shows "\<exists>cs. coords = Arr cs \<and>
     gs = map (\<lambda>(i, coord). collection_obj
            (map (\<lambda>(time, value_list).
               feature_obj (of_nd (nd_items coord ! 1)) (of_nd (nd_items coord ! 0))
                 (of_nd (nd_items value_list ! i)) (isofmt time)) (zip ts values)))
          (enumerate_py cs) \<and>
     (\<forall>(i, coord)\<in>set (enumerate_py cs).
        (zip ts values \<noteq> [] \<longrightarrow> 2 \<le> length (nd_items coord)) \<and>
        (\<forall>(time, value_list)\<in>set (zip ts values). i < length (nd_items value_list)))"
proof -
  from assms obtain cs where cs: "coords = Arr cs"
    by (cases coords) (simp_all add: construct_geojsons_def)
  with assms have "geojsons_loop isofmt (enumerate_py cs) ts values [] = Inr gs"
    by (simp add: construct_geojsons_def)
  from geojsons_loop_Inr [OF this] cs show ?thesis
    by simp
qed


subsection \<open>The method as a whole\<close>

text \<open>
  \<open>render\<close> by cases: the extraction fails, the feature loops fail, the timestamp
  list is empty (so that \<^verbatim>\<open>timestamps[0]\<close> raises after the GeoJSON file is written
  and the HTML file is opened), or both files are written. The substitution into the
  template never fails.
\<close>

lemma render_eq:
  "render lib self state_trajectory =
     (case extract_coords_values (get_by_path lib) self state_trajectory of
        Inl e \<Rightarrow> Raised e []
      | Inr (coords, values) \<Rightarrow>
          (case construct_geojsons (isoformat lib) coords
                  (gen_timestamps self (utcnow lib)) values of
             Inl e \<Rightarrow> Raised e []
           | Inr geojsons \<Rightarrow>
               if gen_timestamps self (utcnow lib) = [] then
                 Raised IndexError
                   [(name (simulation_metadata (config self)) @ ''.geojson'',
                       JsonFile (PList geojsons)),
                    (name (simulation_metadata (config self)) @ ''.html'', TextFile [])]
               else
                 Completed
                   [(name (simulation_metadata (config self)) @ ''.geojson'',
                       JsonFile (PList geojsons)),
                    (name (simulation_metadata (config self)) @ ''.html'',
                       TextFile
                         (rendered_html (cesium_token self) (visualization_type self)
                            (json_dumps lib (PList geojsons))
                            (isoformat lib (hd (gen_timestamps self (utcnow lib))))
                            (isoformat lib (last (gen_timestamps self (utcnow lib))))))]))"
  unfolding render_def Let_def substitute_geoplot_template
  by (cases "gen_timestamps self (utcnow lib)")
     (simp_all add: py_index_def py_last_def split: sum.splits prod.splits)

text \<open>What a completed call has written.\<close>

lemma render_Completed:
  assumes "render lib self state_trajectory = Completed files"
  obtains cs "values" where
    "extract_coords_values (get_by_path lib) self state_trajectory = Inr (Arr cs, values)"
    and "gen_timestamps self (utcnow lib) \<noteq> []"
    and "files =
      [(name (simulation_metadata (config self)) @ ''.geojson'',
          JsonFile (PList (map (\<lambda>(i, coord). collection_obj
            (map (\<lambda>(time, value_list).
               feature_obj (of_nd (nd_items coord ! 1)) (of_nd (nd_items coord ! 0))
                 (of_nd (nd_items value_list ! i)) (isoformat lib time))
               (zip (gen_timestamps self (utcnow lib)) values)))
            (enumerate_py cs)))),
       (name (simulation_metadata (config self)) @ ''.html'',
          TextFile
            (rendered_html (cesium_token self) (visualization_type self)
               (json_dumps lib (PList (map (\<lambda>(i, coord). collection_obj
                  (map (\<lambda>(time, value_list).
                     feature_obj (of_nd (nd_items coord ! 1)) (of_nd (nd_items coord ! 0))
                       (of_nd (nd_items value_list ! i)) (isoformat lib time))
                     (zip (gen_timestamps self (utcnow lib)) values)))
                  (enumerate_py cs))))
               (isoformat lib (hd (gen_timestamps self (utcnow lib))))
               (isoformat lib (last (gen_timestamps self (utcnow lib))))))]"
    and "\<forall>(i, coord)\<in>set (enumerate_py cs).
        (zip (gen_timestamps self (utcnow lib)) values \<noteq> [] \<longrightarrow> 2 \<le> length (nd_items coord)) \<and>
        (\<forall>(time, value_list)\<in>set (zip (gen_timestamps self (utcnow lib)) values).
           i < length (nd_items value_list))"
proof -
  let ?ts = "gen_timestamps self (utcnow lib)"
  from assms obtain coords "values" where
    ex: "extract_coords_values (get_by_path lib) self state_trajectory = Inr (coords, values)"
    by (auto simp: render_eq split: sum.splits)
  from assms ex obtain gs where
    gs: "construct_geojsons (isoformat lib) coords ?ts values = Inr gs"
    by (auto simp: render_eq split: sum.splits)
  from assms ex gs have ne: "?ts \<noteq> []"
    by (auto simp: render_eq split: if_splits)
  from assms ex gs ne have files: "files =
      [(name (simulation_metadata (config self)) @ ''.geojson'', JsonFile (PList gs)),
       (name (simulation_metadata (config self)) @ ''.html'',
          TextFile
            (rendered_html (cesium_token self) (visualization_type self)
               (json_dumps lib (PList gs))
               (isoformat lib (hd ?ts)) (isoformat lib (last ?ts))))]"
    by (simp add: render_eq)
  from construct_geojsons_Inr [OF gs] obtain cs where "coords = Arr cs"
    and "gs = map (\<lambda>(i, coord). collection_obj
            (map (\<lambda>(time, value_list).
               feature_obj (of_nd (nd_items coord ! 1)) (of_nd (nd_items coord ! 0))
                 (of_nd (nd_items value_list ! i)) (isoformat lib time)) (zip ?ts values)))
          (enumerate_py cs)"
    and "\<forall>(i, coord)\<in>set (enumerate_py cs).
        (zip ?ts values \<noteq> [] \<longrightarrow> 2 \<le> length (nd_items coord)) \<and>
        (\<forall>(time, value_list)\<in>set (zip ?ts values). i < length (nd_items value_list))"
    by blast
  with ex ne files show thesis
    by (intro that [of cs "values"]) simp_all
qed

lemma enumerate_py_nth:
  "i < length xs \<Longrightarrow> enumerate_py xs ! i = (i, xs ! i)"
  by (simp add: enumerate_py_def)

lemma length_enumerate_py: "length (enumerate_py xs) = length xs"
  by (simp add: enumerate_py_def)

lemma tpl_has_id_grouping:
  "tpl_upto_size_test =
     take 645 tpl_upto_size_test @ ''          const id = feature.properties.id;\<newline>'' @
     drop 689 tpl_upto_size_test"
  by (simp add: tpl_upto_size_test_def)

text \<open>The method on the example trajectory.\<close>

lemma example_timestamps:
  "gen_timestamps example_geoplot (utcnow example_library) = [1000, 60000001000, 120000001000]"
  by (simp add: gen_timestamps_def py_range_def example_geoplot_def example_library_def
      upt_conv_Cons)

lemma example_isoformat:
  "isoformat example_library 1000 = ''1000''"
  "isoformat example_library 60000001000 = ''60000001000''"
  "isoformat example_library 120000001000 = ''120000001000''"
  by (simp_all add: example_library_def char_of_def bit_0)

lemma example_geojsons:
  "construct_geojsons (isoformat example_library)
     (Arr [Arr [Sc 11, Sc 21], Arr [Sc 31, Sc 41]])
     [1000, 60000001000, 120000001000]
     [Arr [Sc 1, Sc 2], Arr [Sc 3, Sc 4]] =
   Inr [collection_obj
          [feature_obj (PNum 21) (PNum 11) (PNum 1) ''1000'',
           feature_obj (PNum 21) (PNum 11) (PNum 3) ''60000001000''],
        collection_obj
          [feature_obj (PNum 41) (PNum 31) (PNum 2) ''1000'',
           feature_obj (PNum (41::real)) (PNum 31) (PNum 4) ''60000001000'']]"
  by (simp add: construct_geojsons_def enumerate_py_def upt_conv_Cons py_index_def
      example_isoformat)

lemma example_render:
  "render example_library example_geoplot example_trajectory =
     Completed
       [(''sim.geojson'',
           JsonFile (PList
             [collection_obj
                [feature_obj (PNum 21) (PNum 11) (PNum 1) ''1000'',
                 feature_obj (PNum 21) (PNum 11) (PNum 3) ''60000001000''],
              collection_obj
                [feature_obj (PNum 41) (PNum 31) (PNum 2) ''1000'',
                 feature_obj (PNum 41) (PNum 31) (PNum 4) ''60000001000'']])),
        (''sim.html'',
           TextFile (rendered_html ''token'' ''size'' ''[]'' ''1000'' ''120000001000''))]"
proof -
  have lib: "get_by_path example_library = resolve"
    "json_dumps example_library = (\<lambda>d. ''[]'')"
    by (simp_all add: example_library_def char_of_def bit_0)
  have gp: "name (simulation_metadata (config example_geoplot)) = ''sim''"
    "cesium_token example_geoplot = ''token''"
    "visualization_type example_geoplot = ''size''"
    by (simp_all add: example_geoplot_def)
  show ?thesis
    unfolding render_eq lib(1) example_extract example_timestamps
    by (simp add: example_geojsons example_isoformat lib(2) gp)
qed

subsection \<open>The emitted collections\<close>

text \<open>
  C3. A completed call has written one FeatureCollection per item of the extracted
  \<open>coords\<close>, in the order of the items: collection \<open>i\<close> belongs to entity \<open>i\<close>.
  Every collection has \<open>min (length values) (length timestamps)\<close> features, in the
  order of the timestamps: feature \<open>k\<close> carries the time of timestamp \<open>k\<close> and entity
  \<open>i\<close>'s value of step \<open>k\<close>.
\<close>

theorem render_collection_counts:
  assumes "render lib self state_trajectory = Completed files"
  shows "\<exists>cs values gs html.
     extract_coords_values (get_by_path lib) self state_trajectory = Inr (Arr cs, values) \<and>
     files =
       [(name (simulation_metadata (config self)) @ ''.geojson'', JsonFile (PList gs)),
        (name (simulation_metadata (config self)) @ ''.html'', TextFile html)] \<and>
     length gs = length cs \<and>
     (\<forall>i<length cs. \<exists>fs.
        gs ! i = collection_obj fs \<and>
        length fs = min (length values) (length (gen_timestamps self (utcnow lib))) \<and>
        (\<forall>k<length fs. \<exists>lon lat.
           fs ! k = feature_obj lon lat (of_nd (nd_items (values ! k) ! i))
                      (isoformat lib (gen_timestamps self (utcnow lib) ! k))))"
proof -
  let ?ts = "gen_timestamps self (utcnow lib)"
  from assms obtain cs "values" where
    ex: "extract_coords_values (get_by_path lib) self state_trajectory = Inr (Arr cs, values)"
    and files: "files =
      [(name (simulation_metadata (config self)) @ ''.geojson'',
          JsonFile (PList (map (\<lambda>(i, coord). collection_obj
            (map (\<lambda>(time, value_list).
               feature_obj (of_nd (nd_items coord ! 1)) (of_nd (nd_items coord ! 0))
                 (of_nd (nd_items value_list ! i)) (isoformat lib time))
               (zip ?ts values)))
            (enumerate_py cs)))),
       (name (simulation_metadata (config self)) @ ''.html'',
          TextFile
            (rendered_html (cesium_token self) (visualization_type self)
               (json_dumps lib (PList (map (\<lambda>(i, coord). collection_obj
                  (map (\<lambda>(time, value_list).
                     feature_obj (of_nd (nd_items coord ! 1)) (of_nd (nd_items coord ! 0))
                       (of_nd (nd_items value_list ! i)) (isoformat lib time))
                     (zip ?ts values)))
                  (enumerate_py cs))))
               (isoformat lib (hd ?ts)) (isoformat lib (last ?ts))))]"
    by (rule render_Completed)
  define gs where "gs = map (\<lambda>(i, coord). collection_obj
            (map (\<lambda>(time, value_list).
               feature_obj (of_nd (nd_items coord ! 1)) (of_nd (nd_items coord ! 0))
                 (of_nd (nd_items value_list ! i)) (isoformat lib time))
               (zip ?ts values)))
            (enumerate_py cs)"
  have len: "length gs = length cs"
    by (simp add: gs_def length_enumerate_py)
  have each: "\<exists>fs. gs ! i = collection_obj fs \<and>
        length fs = min (length values) (length ?ts) \<and>
        (\<forall>k<length fs. \<exists>lon lat.
           fs ! k = feature_obj lon lat (of_nd (nd_items (values ! k) ! i))
                      (isoformat lib (?ts ! k)))" if "i < length cs" for i
  proof -
    let ?fs = "map (\<lambda>(time, value_list).
               feature_obj (of_nd (nd_items (cs ! i) ! 1)) (of_nd (nd_items (cs ! i) ! 0))
                 (of_nd (nd_items value_list ! i)) (isoformat lib time))
               (zip ?ts values)"
    from that have "gs ! i = collection_obj ?fs"
      by (simp add: gs_def length_enumerate_py enumerate_py_nth)
    moreover have "length ?fs = min (length values) (length ?ts)"
      by (simp add: min.commute)
    moreover have "\<forall>k<length ?fs. \<exists>lon lat.
           ?fs ! k = feature_obj lon lat (of_nd (nd_items (values ! k) ! i))
                      (isoformat lib (?ts ! k))"
      by simp
    ultimately show ?thesis by blast
  qed
  from ex files len each show ?thesis
    unfolding gs_def [symmetric] by blast
qed

theorem render_collection_counts_witness:
  "render example_library example_geoplot example_trajectory =
     Completed
       [(''sim.geojson'',
           JsonFile (PList
             [collection_obj
                [feature_obj (PNum 21) (PNum 11) (PNum 1) ''1000'',
                 feature_obj (PNum 21) (PNum 11) (PNum 3) ''60000001000''],
              collection_obj
                [feature_obj (PNum 41) (PNum 31) (PNum 2) ''1000'',
                 feature_obj (PNum 41) (PNum 31) (PNum 4) ''60000001000'']])),
        (''sim.html'',
           TextFile (rendered_html ''token'' ''size'' ''[]'' ''1000'' ''120000001000''))] \<and>
   (\<exists>cs values gs html.
     extract_coords_values (get_by_path example_library) example_geoplot example_trajectory =
       Inr (Arr cs, values) \<and>
     [(''sim.geojson'',
           JsonFile (PList
             [collection_obj
                [feature_obj (PNum 21) (PNum 11) (PNum 1) ''1000'',
                 feature_obj (PNum 21) (PNum 11) (PNum 3) ''60000001000''],
              collection_obj
                [feature_obj (PNum 41) (PNum 31) (PNum 2) ''1000'',
                 feature_obj (PNum 41) (PNum 31) (PNum 4) ''60000001000'']])),
        (''sim.html'',
           TextFile (rendered_html ''token'' ''size'' ''[]'' ''1000'' ''120000001000''))] =
       [(name (simulation_metadata (config example_geoplot)) @ ''.geojson'', JsonFile (PList gs)),
        (name (simulation_metadata (config example_geoplot)) @ ''.html'', TextFile html)] \<and>
     length gs = length cs \<and>
     (\<forall>i<length cs. \<exists>fs.
        gs ! i = collection_obj fs \<and>
        length fs = min (length values)
          (length (gen_timestamps example_geoplot (utcnow example_library))) \<and>
        (\<forall>k<length fs. \<exists>lon lat.
           fs ! k = feature_obj lon lat (of_nd (nd_items (values ! k) ! i))
                      (isoformat example_library
                         (gen_timestamps example_geoplot (utcnow example_library) ! k)))))"
  by (rule conjI [OF example_render render_collection_counts [OF example_render]])

lemma tpl_groups_by_id:
  "\<exists>a b. tpl_upto_size_test = a @ ''const id = feature.properties.id;'' @ b"
proof -
  have "tpl_upto_size_test =
      (take 645 tpl_upto_size_test @ ''          '') @ ''const id = feature.properties.id;'' @
      (''\<newline>'' @ drop 689 tpl_upto_size_test)"
    using tpl_has_id_grouping by simp
  then show ?thesis by blast
qed

lemma in_set_enumerate_py:
  "(i, x) \<in> set (enumerate_py xs) \<longleftrightarrow> i < length xs \<and> x = xs ! i"
proof
  assume "(i, x) \<in> set (enumerate_py xs)"
  then show "i < length xs \<and> x = xs ! i"
    by (auto simp: enumerate_py_def in_set_zip)
next
  assume "i < length xs \<and> x = xs ! i"
  then have "(i, x) = enumerate_py xs ! i" and "i < length (enumerate_py xs)"
    by (simp_all add: enumerate_py_nth length_enumerate_py)
  then show "(i, x) \<in> set (enumerate_py xs)"
    by (metis nth_mem)
qed

text \<open>
  C4. In every feature of entity \<open>i\<close>'s collection the geometry coordinates are the
  list \<open>[coords[i][1], coords[i][0]]\<close>: the item of \<open>coords\<close> has at least two entries,
  and where it is a pair \<open>[x, y]\<close> the feature holds \<open>[y, x]\<close>, the same pair with its
  two entries exchanged.
\<close>

theorem render_geometry_swapped:
  assumes "render lib self state_trajectory = Completed files"
  shows "\<exists>cs values gs html.
     extract_coords_values (get_by_path lib) self state_trajectory = Inr (Arr cs, values) \<and>
     files =
       [(name (simulation_metadata (config self)) @ ''.geojson'', JsonFile (PList gs)),
        (name (simulation_metadata (config self)) @ ''.html'', TextFile html)] \<and>
     length gs = length cs \<and>
     (\<forall>i<length cs. \<exists>fs.
        gs ! i = collection_obj fs \<and>
        (\<forall>f\<in>set fs.
           2 \<le> length (nd_items (cs ! i)) \<and>
           dict_path f [''geometry'', ''coordinates''] =
             Some (PList [of_nd (nd_items (cs ! i) ! 1), of_nd (nd_items (cs ! i) ! 0)]) \<and>
           (\<forall>x y. cs ! i = Arr [x, y] \<longrightarrow>
              dict_path f [''geometry'', ''coordinates''] = Some (PList [of_nd y, of_nd x]))))"
proof -
  let ?ts = "gen_timestamps self (utcnow lib)"
  let ?feat = "\<lambda>i coord. (\<lambda>(time, value_list).
               feature_obj (of_nd (nd_items coord ! 1)) (of_nd (nd_items coord ! 0))
                 (of_nd (nd_items value_list ! i)) (isoformat lib time))"
  from assms obtain cs "values" where
    ex: "extract_coords_values (get_by_path lib) self state_trajectory = Inr (Arr cs, values)"
    and files: "files =
      [(name (simulation_metadata (config self)) @ ''.geojson'',
          JsonFile (PList (map (\<lambda>(i, coord). collection_obj (map (?feat i coord) (zip ?ts values)))
            (enumerate_py cs)))),
       (name (simulation_metadata (config self)) @ ''.html'',
          TextFile
            (rendered_html (cesium_token self) (visualization_type self)
               (json_dumps lib (PList (map (\<lambda>(i, coord). collection_obj
                  (map (?feat i coord) (zip ?ts values))) (enumerate_py cs))))
               (isoformat lib (hd ?ts)) (isoformat lib (last ?ts))))]"
    and shaped: "\<forall>(i, coord)\<in>set (enumerate_py cs).
        (zip ?ts values \<noteq> [] \<longrightarrow> 2 \<le> length (nd_items coord)) \<and>
        (\<forall>(time, value_list)\<in>set (zip ?ts values). i < length (nd_items value_list))"
    by (rule render_Completed)
  define gs where "gs = map (\<lambda>(i, coord). collection_obj (map (?feat i coord) (zip ?ts values)))
            (enumerate_py cs)"
  have len: "length gs = length cs"
    by (simp add: gs_def length_enumerate_py)
  have each: "\<exists>fs. gs ! i = collection_obj fs \<and>
        (\<forall>f\<in>set fs.
           2 \<le> length (nd_items (cs ! i)) \<and>
           dict_path f [''geometry'', ''coordinates''] =
             Some (PList [of_nd (nd_items (cs ! i) ! 1), of_nd (nd_items (cs ! i) ! 0)]) \<and>
           (\<forall>x y. cs ! i = Arr [x, y] \<longrightarrow>
              dict_path f [''geometry'', ''coordinates''] = Some (PList [of_nd y, of_nd x])))"
    if i: "i < length cs" for i
  proof -
    let ?fs = "map (?feat i (cs ! i)) (zip ?ts values)"
    from i have g: "gs ! i = collection_obj ?fs"
      by (simp add: gs_def length_enumerate_py enumerate_py_nth)
    from i have "(i, cs ! i) \<in> set (enumerate_py cs)"
      by (simp add: in_set_enumerate_py)
    with shaped have two: "zip ?ts values \<noteq> [] \<longrightarrow> 2 \<le> length (nd_items (cs ! i))"
      by blast
    have "2 \<le> length (nd_items (cs ! i)) \<and>
           dict_path f [''geometry'', ''coordinates''] =
             Some (PList [of_nd (nd_items (cs ! i) ! 1), of_nd (nd_items (cs ! i) ! 0)]) \<and>
           (\<forall>x y. cs ! i = Arr [x, y] \<longrightarrow>
              dict_path f [''geometry'', ''coordinates''] = Some (PList [of_nd y, of_nd x]))"
      if "f \<in> set ?fs" for f
    proof -
      from that obtain time value_list where "(time, value_list) \<in> set (zip ?ts values)"
        and f: "f = feature_obj (of_nd (nd_items (cs ! i) ! 1)) (of_nd (nd_items (cs ! i) ! 0))
                 (of_nd (nd_items value_list ! i)) (isoformat lib time)"
        by auto
      then have "zip ?ts values \<noteq> []"
        by auto
      with two have "2 \<le> length (nd_items (cs ! i))"
        by simp
      moreover have "dict_path f [''geometry'', ''coordinates''] =
             Some (PList [of_nd (nd_items (cs ! i) ! 1), of_nd (nd_items (cs ! i) ! 0)])"
        by (simp add: f)
      moreover have "dict_path f [''geometry'', ''coordinates''] = Some (PList [of_nd y, of_nd x])"
        if "cs ! i = Arr [x, y]" for x y
        using that by (simp add: f)
      ultimately show ?thesis by blast
    qed
    with g show ?thesis by blast
  qed
  from ex files len each show ?thesis
    unfolding gs_def [symmetric] by blast
qed

theorem render_geometry_swapped_witness:
  "render example_library example_geoplot example_trajectory =
     Completed
       [(''sim.geojson'',
           JsonFile (PList
             [collection_obj
                [feature_obj (PNum (21::real)) (PNum 11) (PNum 1) ''1000'',
                 feature_obj (PNum 21) (PNum 11) (PNum 3) ''60000001000''],
              collection_obj
                [feature_obj (PNum 41) (PNum 31) (PNum 2) ''1000'',
                 feature_obj (PNum 41) (PNum 31) (PNum 4) ''60000001000'']])),
        (''sim.html'',
           TextFile (rendered_html ''token'' ''size'' ''[]'' ''1000'' ''120000001000''))] \<and>
   (\<exists>cs values gs html.
     extract_coords_values (get_by_path example_library) example_geoplot example_trajectory = Inr (Arr cs, values) \<and>
     [(''sim.geojson'',
           JsonFile (PList
             [collection_obj
                [feature_obj (PNum (21::real)) (PNum 11) (PNum 1) ''1000'',
                 feature_obj (PNum 21) (PNum 11) (PNum 3) ''60000001000''],
              collection_obj
                [feature_obj (PNum 41) (PNum 31) (PNum 2) ''1000'',
                 feature_obj (PNum 41) (PNum 31) (PNum 4) ''60000001000'']])),
        (''sim.html'',
           TextFile (rendered_html ''token'' ''size'' ''[]'' ''1000'' ''120000001000''))] =
       [(name (simulation_metadata (config example_geoplot)) @ ''.geojson'', JsonFile (PList gs)),
        (name (simulation_metadata (config example_geoplot)) @ ''.html'', TextFile html)] \<and>
     length gs = length cs \<and>
     (\<forall>i<length cs. \<exists>fs.
        gs ! i = collection_obj fs \<and>
        (\<forall>f\<in>set fs.
           2 \<le> length (nd_items (cs ! i)) \<and>
           dict_path f [''geometry'', ''coordinates''] =
             Some (PList [of_nd (nd_items (cs ! i) ! 1), of_nd (nd_items (cs ! i) ! 0)]) \<and>
           (\<forall>x y. cs ! i = Arr [x, y] \<longrightarrow>
              dict_path f [''geometry'', ''coordinates''] = Some (PList [of_nd y, of_nd x])))))"
  by (rule conjI [OF example_render render_geometry_swapped [OF example_render]])

text \<open>
  C10. The properties of every emitted feature are a dictionary with the keys
  \<^verbatim>\<open>value\<close> and \<^verbatim>\<open>time\<close> and no others; there is no \<^verbatim>\<open>id\<close>. The script of the
  written page nevertheless reads \<^verbatim>\<open>feature.properties.id\<close> to group the features.
\<close>

theorem feature_properties_keys:
  assumes "render lib self state_trajectory = Completed files"
  shows "\<exists>gs html.
     files =
       [(name (simulation_metadata (config self)) @ ''.geojson'', JsonFile (PList gs)),
        (name (simulation_metadata (config self)) @ ''.html'', TextFile html)] \<and>
     (\<forall>g\<in>set gs. \<exists>fs.
        g = collection_obj fs \<and>
        (\<forall>f\<in>set fs. \<exists>props.
           dict_get f ''properties'' = Some props \<and>
           dict_keys props = [''value'', ''time''] \<and>
           dict_get props ''id'' = None)) \<and>
     (\<exists>pre post. html = pre @ ''const id = feature.properties.id;'' @ post)"
proof -
  let ?ts = "gen_timestamps self (utcnow lib)"
  let ?feat = "\<lambda>i coord. (\<lambda>(time, value_list).
               feature_obj (of_nd (nd_items coord ! 1)) (of_nd (nd_items coord ! 0))
                 (of_nd (nd_items value_list ! i)) (isoformat lib time))"
  from assms obtain cs "values" where
    files: "files =
      [(name (simulation_metadata (config self)) @ ''.geojson'',
          JsonFile (PList (map (\<lambda>(i, coord). collection_obj (map (?feat i coord) (zip ?ts values)))
            (enumerate_py cs)))),
       (name (simulation_metadata (config self)) @ ''.html'',
          TextFile
            (rendered_html (cesium_token self) (visualization_type self)
               (json_dumps lib (PList (map (\<lambda>(i, coord). collection_obj
                  (map (?feat i coord) (zip ?ts values))) (enumerate_py cs))))
               (isoformat lib (hd ?ts)) (isoformat lib (last ?ts))))]"
    by (rule render_Completed)
  define gs where "gs = map (\<lambda>(i, coord). collection_obj (map (?feat i coord) (zip ?ts values)))
            (enumerate_py cs)"
  define html where "html = rendered_html (cesium_token self) (visualization_type self)
               (json_dumps lib (PList gs)) (isoformat lib (hd ?ts)) (isoformat lib (last ?ts))"
  have cols: "\<exists>fs. g = collection_obj fs \<and>
        (\<forall>f\<in>set fs. \<exists>props.
           dict_get f ''properties'' = Some props \<and>
           dict_keys props = [''value'', ''time''] \<and>
           dict_get props ''id'' = None)" if "g \<in> set gs" for g
  proof -
    from that obtain i coord where g: "g = collection_obj (map (?feat i coord) (zip ?ts values))"
      by (auto simp: gs_def)
    have "\<exists>props. dict_get f ''properties'' = Some props \<and>
           dict_keys props = [''value'', ''time''] \<and> dict_get props ''id'' = None"
      if "f \<in> set (map (?feat i coord) (zip ?ts values))" for f
      using that by auto
    with g show ?thesis by blast
  qed
  from tpl_groups_by_id obtain a b where
    ab: "tpl_upto_size_test = a @ ''const id = feature.properties.id;'' @ b"
    by blast
  have "html = (tpl_upto_token @ cesium_token self @ tpl_upto_alpha_test @
        visualization_type self @ a) @ ''const id = feature.properties.id;'' @
      (b @ visualization_type self @ tpl_upto_sample_test @ visualization_type self @
        tpl_upto_data @ json_dumps lib (PList gs) @ tpl_upto_start @ isoformat lib (hd ?ts) @
        tpl_upto_stop @ isoformat lib (last ?ts) @ tpl_tail)"
    unfolding html_def ab by simp
  then have "\<exists>pre post. html = pre @ ''const id = feature.properties.id;'' @ post"
    by blast
  with files cols show ?thesis
    unfolding gs_def [symmetric] html_def [symmetric] by blast
qed

theorem feature_properties_keys_witness:
  "render example_library example_geoplot example_trajectory =
     Completed
       [(''sim.geojson'',
           JsonFile (PList
             [collection_obj
                [feature_obj (PNum (21::real)) (PNum 11) (PNum 1) ''1000'',
                 feature_obj (PNum 21) (PNum 11) (PNum 3) ''60000001000''],
              collection_obj
                [feature_obj (PNum 41) (PNum 31) (PNum 2) ''1000'',
                 feature_obj (PNum 41) (PNum 31) (PNum 4) ''60000001000'']])),
        (''sim.html'',
           TextFile (rendered_html ''token'' ''size'' ''[]'' ''1000'' ''120000001000''))] \<and>
   (\<exists>gs html.
     [(''sim.geojson'',
           JsonFile (PList
             [collection_obj
                [feature_obj (PNum (21::real)) (PNum 11) (PNum 1) ''1000'',
                 feature_obj (PNum 21) (PNum 11) (PNum 3) ''60000001000''],
              collection_obj
                [feature_obj (PNum 41) (PNum 31) (PNum 2) ''1000'',
                 feature_obj (PNum 41) (PNum 31) (PNum 4) ''60000001000'']])),
        (''sim.html'',
           TextFile (rendered_html ''token'' ''size'' ''[]'' ''1000'' ''120000001000''))] =
       [(name (simulation_metadata (config example_geoplot)) @ ''.geojson'', JsonFile (PList gs)),
        (name (simulation_metadata (config example_geoplot)) @ ''.html'', TextFile html)] \<and>
     (\<forall>g\<in>set gs. \<exists>fs.
        g = collection_obj fs \<and>
        (\<forall>f\<in>set fs. \<exists>props.
           dict_get f ''properties'' = Some props \<and>
           dict_keys props = [''value'', ''time''] \<and>
           dict_get props ''id'' = None)) \<and>
     (\<exists>pre post. html = pre @ ''const id = feature.properties.id;'' @ post))"
  by (rule conjI [OF example_render feature_properties_keys [OF example_render]])

subsection \<open>The end-to-end scenario\<close>

lemma tolist_pairs:
  "tolist \<lparr>shape = [2, 2], data = [a, b, c, d]\<rparr> = Arr [Arr [Sc a, Sc b], Arr [Sc c, Sc d]]"
  "tolist (flatten \<lparr>shape = [2], data = [a, b]\<rparr>) = Arr [Sc a, Sc b]"
  by (simp_all add: tolist_def flatten_def upt_conv_Cons eval_nat_numeral)

lemma geojsons_two_entities:
  "construct_geojsons isofmt (Arr [Arr [Sc a, Sc b], Arr [Sc c, Sc d]]) [t0, t1, t2]
     [Arr [Sc v1, Sc v2], Arr [Sc w1, Sc w2]] =
   Inr [collection_obj
          [feature_obj (PNum b) (PNum a) (PNum v1) (isofmt t0),
           feature_obj (PNum b) (PNum a) (PNum w1) (isofmt t1)],
        collection_obj
          [feature_obj (PNum d) (PNum c) (PNum v2) (isofmt t0),
           feature_obj (PNum d) (PNum c) (PNum w2) (isofmt t1)]]"
  by (simp add: construct_geojsons_def enumerate_py_def upt_conv_Cons py_index_def)

text \<open>
  C1. Three episodes of one state each; the coordinates path resolves to
  \<open>[[10, 20], [30, 40]]\<close> on the state of episode 0 and to \<open>[[11, 21], [31, 41]]\<close> on
  that of episode 1, the feature path to \<open>[1, 2]\<close> and \<open>[3, 4]\<close>; \<open>step_time\<close> is 60,
  with 3 episodes of 1 step. Then \<open>render\<close> completes and writes exactly two
  FeatureCollections of exactly two features each. Both features of the first collection
  have the coordinates \<open>[21, 11]\<close>, and their values are 1, then 3. (The second
  collection has \<open>[41, 31]\<close> and the values 2 and 4; the times are the clock reading and
  60 seconds later, the third timestamp appearing only as the page's stop time. The
  state of episode 2 is arbitrary.)
\<close>

theorem end_to_end_scenario:
  fixes lib :: "('st, real) library"
  assumes traj: "state_trajectory = [[s0], [s1], [s2]]"
    and pos0: "read_var (get_by_path lib) s0 (entity_position self) =
                 Inr (Arr [Arr [Sc 10, Sc 20], Arr [Sc 30, Sc 40]])"
    and pos1: "read_var (get_by_path lib) s1 (entity_position self) =
                 Inr (Arr [Arr [Sc 11, Sc 21], Arr [Sc 31, Sc 41]])"
    and val0: "read_var (get_by_path lib) s0 (entity_property self) = Inr (Arr [Sc 1, Sc 2])"
    and val1: "read_var (get_by_path lib) s1 (entity_property self) = Inr (Arr [Sc 3, Sc 4])"
    and step: "step_time self = 60"
    and eps: "num_episodes (simulation_metadata (config self)) = 3"
    and steps: "num_steps_per_episode (simulation_metadata (config self)) = 1"
  shows "render lib self state_trajectory =
     Completed
       [(name (simulation_metadata (config self)) @ ''.geojson'',
           JsonFile (PList
             [collection_obj
                [feature_obj (PNum 21) (PNum 11) (PNum 1) (isoformat lib (utcnow lib)),
                 feature_obj (PNum 21) (PNum 11) (PNum 3)
                   (isoformat lib (utcnow lib + 60000000000))],
              collection_obj
                [feature_obj (PNum 41) (PNum 31) (PNum 2) (isoformat lib (utcnow lib)),
                 feature_obj (PNum 41) (PNum 31) (PNum 4)
                   (isoformat lib (utcnow lib + 60000000000))]])),
        (name (simulation_metadata (config self)) @ ''.html'',
           TextFile
             (rendered_html (cesium_token self) (visualization_type self)
                (json_dumps lib (PList
                  [collection_obj
                     [feature_obj (PNum 21) (PNum 11) (PNum 1) (isoformat lib (utcnow lib)),
                      feature_obj (PNum 21) (PNum 11) (PNum 3)
                        (isoformat lib (utcnow lib + 60000000000))],
                   collection_obj
                     [feature_obj (PNum 41) (PNum 31) (PNum 2) (isoformat lib (utcnow lib)),
                      feature_obj (PNum 41) (PNum 31) (PNum 4)
                        (isoformat lib (utcnow lib + 60000000000))]]))
                (isoformat lib (utcnow lib))
                (isoformat lib (utcnow lib + 120000000000))))]"
proof -
  have idx: "[0..<length state_trajectory - 1] = [0, 1]"
    by (simp add: traj upt_conv_Cons)
  have ex: "extract_coords_values (get_by_path lib) self state_trajectory =
      Inr (Arr [Arr [Sc 11, Sc 21], Arr [Sc 31, Sc 41]], [Arr [Sc 1, Sc 2], Arr [Sc 3, Sc 4]])"
    unfolding extract_coords_values_def idx
    by (simp add: traj py_last_def pos0 pos1 val0 val1 np_array_pairs tolist_pairs)
  have ts: "gen_timestamps self (utcnow lib) =
      [utcnow lib, utcnow lib + 60000000000, utcnow lib + 120000000000]"
    by (simp add: gen_timestamps_def py_range_def step eps steps upt_conv_Cons)
  show ?thesis
    unfolding render_eq ex ts by (simp add: geojsons_two_entities)
qed

theorem end_to_end_scenario_witness:
  "render example_library example_geoplot example_trajectory =
     Completed
       [(''sim.geojson'',
           JsonFile (PList
             [collection_obj
                [feature_obj (PNum 21) (PNum 11) (PNum 1) ''1000'',
                 feature_obj (PNum 21) (PNum 11) (PNum 3) ''60000001000''],
              collection_obj
                [feature_obj (PNum 41) (PNum 31) (PNum 2) ''1000'',
                 feature_obj (PNum 41) (PNum 31) (PNum 4) ''60000001000'']])),
        (''sim.html'',
           TextFile (rendered_html ''token'' ''size'' ''[]'' ''1000'' ''120000001000''))]"
proof -
  let ?s0 = "example_state (Arr [Arr [Sc 10, Sc 20], Arr [Sc 30, Sc 40]]) (Arr [Sc 1, Sc 2])"
  let ?s1 = "example_state (Arr [Arr [Sc 11, Sc 21], Arr [Sc 31, Sc 41]]) (Arr [Sc 3, Sc 4])"
  let ?s2 = "example_state (Arr [Arr [Sc 12, Sc 22], Arr [Sc 32, Sc 42]]) (Arr [Sc 5, Sc 6])"
  have lib: "get_by_path example_library = resolve" "utcnow example_library = 1000"
    "json_dumps example_library = (\<lambda>d. ''[]'')"
    by (simp_all add: example_library_def)
  have gp: "entity_position example_geoplot = ''agents/pos''"
    "entity_property example_geoplot = ''agents/val''"
    "name (simulation_metadata (config example_geoplot)) = ''sim''"
    "cesium_token example_geoplot = ''token''"
    "visualization_type example_geoplot = ''size''"
    by (simp_all add: example_geoplot_def)
  have traj: "example_trajectory = [[?s0], [?s1], [?s2]]"
    by (simp add: example_trajectory_def)
  have pos0: "read_var (get_by_path example_library) ?s0 (entity_position example_geoplot) =
      Inr (Arr [Arr [Sc 10, Sc 20], Arr [Sc 30, Sc 40]])"
    and pos1: "read_var (get_by_path example_library) ?s1 (entity_position example_geoplot) =
      Inr (Arr [Arr [Sc 11, Sc 21], Arr [Sc 31, Sc 41]])"
    and val0: "read_var (get_by_path example_library) ?s0 (entity_property example_geoplot) =
      Inr (Arr [Sc 1, Sc 2])"
    and val1: "read_var (get_by_path example_library) ?s1 (entity_property example_geoplot) =
      Inr (Arr [Sc 3, Sc 4])"
    by (simp_all only: lib gp read_example_pos read_example_val)
  have cfg: "step_time example_geoplot = 60"
    "num_episodes (simulation_metadata (config example_geoplot)) = 3"
    "num_steps_per_episode (simulation_metadata (config example_geoplot)) = 1"
    by (simp_all add: example_geoplot_def)
  from end_to_end_scenario [OF traj pos0 pos1 val0 val1 cfg] show ?thesis
    by (simp add: lib gp example_isoformat)
qed

subsection \<open>Trajectories without states\<close>

lemma extract_no_states:
  assumes "\<forall>episode\<in>set state_trajectory. episode = []"
  shows "extract_coords_values gbp self state_trajectory =
     (if length state_trajectory \<le> 1 then Inr (Arr [], []) else Inl IndexError)"
proof (cases "length state_trajectory \<le> 1")
  case True
  then have "[0..<length state_trajectory - 1] = []"
    by simp
  with True show ?thesis
    by (simp add: extract_coords_values_def)
next
  case False
  then have idx: "[0..<length state_trajectory - 1] = 0 # [1..<length state_trajectory - 1]"
    by (simp add: upt_conv_Cons)
  from False assms have "state_trajectory ! 0 = []"
    by (cases state_trajectory) simp_all
  then have "extract_loop gbp self state_trajectory
      (0 # [1..<length state_trajectory - 1]) (Arr []) [] = Inl IndexError"
    by (simp add: py_last_def)
  with False show ?thesis
    unfolding extract_coords_values_def idx by simp
qed

lemma construct_geojsons_empty: "construct_geojsons isofmt (Arr []) ts values = Inr []"
  by (simp add: construct_geojsons_def enumerate_py_def)

text \<open>
  C6, as the method behaves. The method has no check for an empty trajectory. On a
  trajectory without any state: with at most one episode the loop body never runs, the
  list of collections is empty, and the method writes both files, unless the timestamp
  list is empty, when \<^verbatim>\<open>timestamps[0]\<close> raises \<^verbatim>\<open>IndexError\<close> after the GeoJSON file
  is written; with two or more episodes \<^verbatim>\<open>state_trajectory[0][-1]\<close> raises
  \<^verbatim>\<open>IndexError\<close> before any file is written.
\<close>

theorem render_without_states:
  assumes "\<forall>episode\<in>set state_trajectory. episode = []"
  shows
    "(length state_trajectory \<le> 1 \<and> gen_timestamps self (utcnow lib) \<noteq> [] \<longrightarrow>
        render lib self state_trajectory =
          Completed
            [(name (simulation_metadata (config self)) @ ''.geojson'', JsonFile (PList [])),
             (name (simulation_metadata (config self)) @ ''.html'',
                TextFile
                  (rendered_html (cesium_token self) (visualization_type self)
                     (json_dumps lib (PList []))
                     (isoformat lib (hd (gen_timestamps self (utcnow lib))))
                     (isoformat lib (last (gen_timestamps self (utcnow lib))))))]) \<and>
     (length state_trajectory \<le> 1 \<and> gen_timestamps self (utcnow lib) = [] \<longrightarrow>
        render lib self state_trajectory =
          Raised IndexError
            [(name (simulation_metadata (config self)) @ ''.geojson'', JsonFile (PList [])),
             (name (simulation_metadata (config self)) @ ''.html'', TextFile [])]) \<and>
     (2 \<le> length state_trajectory \<longrightarrow>
        render lib self state_trajectory = Raised IndexError [])"
  unfolding render_eq extract_no_states [OF assms]
  by (simp add: construct_geojsons_empty)

theorem render_without_states_witness:
  "render example_library example_geoplot [[], []] = Raised IndexError []"
proof -
  have h: "\<forall>episode\<in>set [[], [] :: real state list]. episode = []"
    by simp
  from render_without_states [OF h, of example_geoplot example_library] h show ?thesis
    by simp
qed


text \<open>
  The claim as stated fails on the empty trajectory: with the example configuration the
  method completes and writes an empty list of collections.
\<close>

theorem render_empty_trajectory_completes:
  "render example_library example_geoplot [] =
     Completed
       [(''sim.geojson'', JsonFile (PList [])),
        (''sim.html'',
           TextFile (rendered_html ''token'' ''size'' ''[]'' ''1000'' ''120000001000''))]"
proof -
  have "extract_coords_values (get_by_path example_library) example_geoplot [] = Inr (Arr [], [])"
    by (simp add: extract_coords_values_def)
  moreover have "name (simulation_metadata (config example_geoplot)) = ''sim''"
    "cesium_token example_geoplot = ''token''"
    "visualization_type example_geoplot = ''size''"
    "json_dumps example_library = (\<lambda>d. ''[]'')"
    by (simp_all add: example_geoplot_def example_library_def)
  ultimately show ?thesis
    unfolding render_eq example_timestamps
    by (simp add: construct_geojsons_empty example_isoformat)
qed

subsection \<open>Value lists of another length than the entity count\<close>

lemma extract_values_are_lists:
  assumes "extract_coords_values gbp self state_trajectory = Inr (coords, values)"
  shows "\<forall>value_list\<in>set values. \<exists>vs. value_list = Arr vs"
proof -
  from assms have "extract_loop gbp self state_trajectory
      [0..<length state_trajectory - 1] (Arr []) [] = Inr (coords, values)"
    by (simp add: extract_coords_values_def)
  from extract_loop_values [OF this] show ?thesis
    by auto
qed

lemma all_steps_long_enough:
  "(\<forall>(i, coord)\<in>set (enumerate_py cs). \<forall>(time, value_list)\<in>set (zip ts values).
       i < length (nd_items value_list)) \<longleftrightarrow>
   (\<forall>k<min (length values) (length ts). length cs \<le> length (nd_items (values ! k)))"
proof
  assume l: "\<forall>(i, coord)\<in>set (enumerate_py cs). \<forall>(time, value_list)\<in>set (zip ts values).
       i < length (nd_items value_list)"
  show "\<forall>k<min (length values) (length ts). length cs \<le> length (nd_items (values ! k))"
  proof (intro allI impI)
    fix k
    assume k: "k < min (length values) (length ts)"
    then have z: "(ts ! k, values ! k) \<in> set (zip ts values)"
      by (auto simp: in_set_zip)
    have "i < length (nd_items (values ! k))" if "i < length cs" for i
    proof -
      from that have "(i, cs ! i) \<in> set (enumerate_py cs)"
        by (simp add: in_set_enumerate_py)
      with l z show ?thesis by blast
    qed
    then show "length cs \<le> length (nd_items (values ! k))"
      by (meson not_less order_refl)
  qed
next
  assume r: "\<forall>k<min (length values) (length ts). length cs \<le> length (nd_items (values ! k))"
  show "\<forall>(i, coord)\<in>set (enumerate_py cs). \<forall>(time, value_list)\<in>set (zip ts values).
       i < length (nd_items value_list)"
  proof (clarify)
    fix i coord time value_list
    assume "(i, coord) \<in> set (enumerate_py cs)" and "(time, value_list) \<in> set (zip ts values)"
    then obtain k where "i < length cs" "k < length ts" "k < length values" "value_list = values ! k"
      by (auto simp: in_set_enumerate_py in_set_zip)
    with r show "i < length (nd_items value_list)"
      by (metis min_less_iff_conj less_le_trans)
  qed
qed

lemma example_extract_one_step:
  "extract_coords_values resolve example_geoplot
     [[example_state (Arr [Arr [Sc 10, Sc 20], Arr [Sc 30, Sc 40]]) (Arr (map Sc vs))],
      [example_state (Arr [Arr [Sc 11, Sc 21], Arr [Sc 31, Sc 41]]) (Arr [Sc 3, Sc 4])]] =
   Inr (Arr [Arr [Sc 10, Sc 20], Arr [Sc 30, Sc 40]], [Arr (map Sc vs)])"
proof -
  have e: "entity_position example_geoplot = ''agents/pos''"
    "entity_property example_geoplot = ''agents/val''"
    by (simp_all add: example_geoplot_def)
  have sh: "np_shape (Arr (map Sc vs)) = Some [length vs]"
    by (cases vs) (simp_all add: list_all_iff)
  have cc: "concat (map (np_flat \<circ> Sc) vs) = vs"
    by (induction vs) simp_all
  then have fl: "np_flat (Arr (map Sc vs)) = vs"
    by simp
  have a: "np_array (Arr (map Sc vs)) = Inr \<lparr>shape = [length vs], data = vs\<rparr>"
    by (simp add: np_array_def sh cc)
  have t: "tolist (flatten \<lparr>shape = [length vs], data = vs\<rparr>) = Arr (map Sc vs)"
    using tolist_flatten [OF a] by (simp add: cc)
  show ?thesis
    by (simp add: extract_coords_values_def py_last_def e read_example_pos read_example_val
        np_array_pairs tolist_pairs a t)
qed

lemma nd_getitem_take:
  "i < n \<Longrightarrow> nd_getitem (Arr (take n vs)) i = nd_getitem (Arr vs) i"
  by (simp add: py_index_def)

lemma features_loop_truncate:
  assumes "i < n" and "\<forall>(time, value_list)\<in>set tv. \<exists>vs. value_list = Arr vs"
  shows "features_loop isofmt i coord
           (map (\<lambda>(time, value_list). (time, Arr (take n (nd_items value_list)))) tv) acc =
         features_loop isofmt i coord tv acc"
  using assms(2)
proof (induction tv arbitrary: acc)
  case Nil
  then show ?case by simp
next
  case (Cons a tv)
  obtain time value_list where a: "a = (time, value_list)"
    by (cases a)
  from Cons.prems a obtain vs where vs: "value_list = Arr vs"
    by auto
  from Cons.prems have tv: "\<forall>(time, value_list)\<in>set tv. \<exists>vs. value_list = Arr vs"
    by simp
  have g: "nd_getitem (Arr (take n vs)) i = nd_getitem (Arr vs) i"
    using assms(1) by (rule nd_getitem_take)
  show ?case
    unfolding a vs using Cons.IH [OF tv] g
    by (simp split: sum.splits)
qed

lemma geojsons_loop_truncate:
  assumes "\<forall>(i, coord)\<in>set ics. i < n"
    and "\<forall>value_list\<in>set values. \<exists>vs. value_list = Arr vs"
  shows "geojsons_loop isofmt ics ts
           (map (\<lambda>value_list. Arr (take n (nd_items value_list))) values) acc =
         geojsons_loop isofmt ics ts values acc"
  using assms(1)
proof (induction ics arbitrary: acc)
  case Nil
  then show ?case by simp
next
  case (Cons a ics)
  obtain i coord where a: "a = (i, coord)"
    by (cases a)
  from Cons.prems a have i: "i < n" and ics: "\<forall>(i, coord)\<in>set ics. i < n"
    by simp_all
  from assms(2) have tv: "\<forall>(time, value_list)\<in>set (zip ts values). \<exists>vs. value_list = Arr vs"
    by (auto dest: set_zip_rightD)
  have z: "zip ts (map (\<lambda>value_list. Arr (take n (nd_items value_list))) values) =
      map (\<lambda>(time, value_list). (time, Arr (take n (nd_items value_list)))) (zip ts values)"
    by (rule zip_map2)
  show ?case
    unfolding a using features_loop_truncate [OF i tv, of isofmt coord "[]"] Cons.IH [OF ics]
    by (simp add: z split: sum.splits)
qed

lemma map_zip_nth:
  "map (\<lambda>(x, y). G x y) (zip xs ys) =
     map (\<lambda>k. G (xs ! k) (ys ! k)) [0..<min (length ys) (length xs)]"
  by (intro nth_equalityI) (simp_all add: min.commute)

lemma construct_geojsons_truncate:
  assumes "\<forall>value_list\<in>set values. \<exists>vs. value_list = Arr vs"
  shows "construct_geojsons isofmt (Arr cs) ts
           (map (\<lambda>value_list. Arr (take (length cs) (nd_items value_list))) values) =
         construct_geojsons isofmt (Arr cs) ts values"
proof -
  have "\<forall>(i, coord)\<in>set (enumerate_py cs). i < length cs"
    by (auto simp: in_set_enumerate_py)
  from geojsons_loop_truncate [OF this assms] show ?thesis
    by (simp add: construct_geojsons_def)
qed

text \<open>
  C7, as the method behaves. The method does not compare the length of a step's value
  list with the number \<open>E\<close> of coordinate items; it reads \<^verbatim>\<open>value_list[i]\<close> for every
  \<open>i < E\<close>. So, for coordinate items of at least two entries: when some step that is
  paired with a timestamp has fewer than \<open>E\<close> values, the method fails with
  \<^verbatim>\<open>IndexError\<close> before writing a file; when every such step has at least \<open>E\<close> values
  (and there is a timestamp), it completes, and what it writes is what the value lists
  cut to their first \<open>E\<close> entries give: feature \<open>k\<close> of collection \<open>i\<close> holds entry
  \<open>i\<close> of step \<open>k\<close>, and the entries from \<open>E\<close> on appear nowhere.
\<close>

theorem render_value_count_mismatch:
  assumes ex: "extract_coords_values (get_by_path lib) self state_trajectory = Inr (Arr cs, values)"
    and pairs: "\<forall>coord\<in>set cs. 2 \<le> length (nd_items coord)"
  shows
    "((\<exists>k<min (length values) (length (gen_timestamps self (utcnow lib))).
         length (nd_items (values ! k)) < length cs) \<longrightarrow>
        render lib self state_trajectory = Raised IndexError []) \<and>
     ((\<forall>k<min (length values) (length (gen_timestamps self (utcnow lib))).
         length cs \<le> length (nd_items (values ! k))) \<and>
      gen_timestamps self (utcnow lib) \<noteq> [] \<longrightarrow>
        (\<exists>gs.
           construct_geojsons (isoformat lib) (Arr cs) (gen_timestamps self (utcnow lib))
             (map (\<lambda>value_list. Arr (take (length cs) (nd_items value_list))) values) = Inr gs \<and>
           gs = map (\<lambda>i. collection_obj
                  (map (\<lambda>k.
                     feature_obj (of_nd (nd_items (cs ! i) ! 1)) (of_nd (nd_items (cs ! i) ! 0))
                       (of_nd (nd_items (values ! k) ! i))
                       (isoformat lib (gen_timestamps self (utcnow lib) ! k)))
                     [0..<min (length values) (length (gen_timestamps self (utcnow lib)))]))
                [0..<length cs] \<and>
           render lib self state_trajectory =
             Completed
               [(name (simulation_metadata (config self)) @ ''.geojson'', JsonFile (PList gs)),
                (name (simulation_metadata (config self)) @ ''.html'',
                   TextFile
                     (rendered_html (cesium_token self) (visualization_type self)
                        (json_dumps lib (PList gs))
                        (isoformat lib (hd (gen_timestamps self (utcnow lib))))
                        (isoformat lib (last (gen_timestamps self (utcnow lib))))))]))"
proof -
  let ?ts = "gen_timestamps self (utcnow lib)"
  let ?cut = "map (\<lambda>value_list. Arr (take (length cs) (nd_items value_list))) values"
  from pairs have p: "\<forall>(i, coord)\<in>set (enumerate_py cs). 2 \<le> length (nd_items coord)"
    by (auto simp: in_set_enumerate_py)
  note v = extract_values_are_lists [OF ex]
  note loop = geojsons_loop_shaped [OF p v, of "isoformat lib" ?ts "[]",
      unfolded all_steps_long_enough]
  have c: "construct_geojsons (isoformat lib) (Arr cs) ?ts values =
      geojsons_loop (isoformat lib) (enumerate_py cs) ?ts values []"
    by (simp add: construct_geojsons_def)
  have short: "render lib self state_trajectory = Raised IndexError []"
    if "\<exists>k<min (length values) (length ?ts). length (nd_items (values ! k)) < length cs"
  proof -
    from that have "\<not> (\<forall>k<min (length values) (length ?ts).
        length cs \<le> length (nd_items (values ! k)))"
      by (auto simp: not_le)
    with loop have "geojsons_loop (isoformat lib) (enumerate_py cs) ?ts values [] = Inl IndexError"
      by simp
    then show ?thesis
      by (simp add: render_eq ex c)
  qed
  have long: "\<exists>gs.
      construct_geojsons (isoformat lib) (Arr cs) ?ts ?cut = Inr gs \<and>
      gs = map (\<lambda>i. collection_obj
             (map (\<lambda>k.
                feature_obj (of_nd (nd_items (cs ! i) ! 1)) (of_nd (nd_items (cs ! i) ! 0))
                  (of_nd (nd_items (values ! k) ! i)) (isoformat lib (?ts ! k)))
                [0..<min (length values) (length ?ts)]))
           [0..<length cs] \<and>
      render lib self state_trajectory =
        Completed
          [(name (simulation_metadata (config self)) @ ''.geojson'', JsonFile (PList gs)),
           (name (simulation_metadata (config self)) @ ''.html'',
              TextFile
                (rendered_html (cesium_token self) (visualization_type self)
                   (json_dumps lib (PList gs))
                   (isoformat lib (hd ?ts)) (isoformat lib (last ?ts))))]"
    if all: "\<forall>k<min (length values) (length ?ts). length cs \<le> length (nd_items (values ! k))"
      and ne: "?ts \<noteq> []"
  proof -
    define gs where "gs = map (\<lambda>(i, coord). collection_obj
            (map (\<lambda>(time, value_list).
               feature_obj (of_nd (nd_items coord ! 1)) (of_nd (nd_items coord ! 0))
                 (of_nd (nd_items value_list ! i)) (isoformat lib time)) (zip ?ts values)))
          (enumerate_py cs)"
    from all loop have g: "construct_geojsons (isoformat lib) (Arr cs) ?ts values = Inr gs"
      by (simp add: c gs_def)
    then have cut: "construct_geojsons (isoformat lib) (Arr cs) ?ts ?cut = Inr gs"
      by (simp only: construct_geojsons_truncate [OF v])
    have form: "gs = map (\<lambda>i. collection_obj
             (map (\<lambda>k.
                feature_obj (of_nd (nd_items (cs ! i) ! 1)) (of_nd (nd_items (cs ! i) ! 0))
                  (of_nd (nd_items (values ! k) ! i)) (isoformat lib (?ts ! k)))
                [0..<min (length values) (length ?ts)]))
           [0..<length cs]"
      unfolding gs_def
      by (intro nth_equalityI)
         (simp_all add: length_enumerate_py enumerate_py_nth map_zip_nth)
    from g ne have "render lib self state_trajectory =
        Completed
          [(name (simulation_metadata (config self)) @ ''.geojson'', JsonFile (PList gs)),
           (name (simulation_metadata (config self)) @ ''.html'',
              TextFile
                (rendered_html (cesium_token self) (visualization_type self)
                   (json_dumps lib (PList gs))
                   (isoformat lib (hd ?ts)) (isoformat lib (last ?ts))))]"
      by (simp add: render_eq ex)
    with cut form show ?thesis
      by (intro exI [of _ gs] conjI)
  qed
  show ?thesis
  proof (rule conjI)
    show "(\<exists>k<min (length values) (length ?ts). length (nd_items (values ! k)) < length cs) \<longrightarrow>
        render lib self state_trajectory = Raised IndexError []"
      using short by (rule impI)
  next
    show "(\<forall>k<min (length values) (length ?ts). length cs \<le> length (nd_items (values ! k))) \<and>
      ?ts \<noteq> [] \<longrightarrow>
        (\<exists>gs.
           construct_geojsons (isoformat lib) (Arr cs) ?ts ?cut = Inr gs \<and>
           gs = map (\<lambda>i. collection_obj
                  (map (\<lambda>k.
                     feature_obj (of_nd (nd_items (cs ! i) ! 1)) (of_nd (nd_items (cs ! i) ! 0))
                       (of_nd (nd_items (values ! k) ! i)) (isoformat lib (?ts ! k)))
                     [0..<min (length values) (length ?ts)]))
                [0..<length cs] \<and>
           render lib self state_trajectory =
             Completed
               [(name (simulation_metadata (config self)) @ ''.geojson'', JsonFile (PList gs)),
                (name (simulation_metadata (config self)) @ ''.html'',
                   TextFile
                     (rendered_html (cesium_token self) (visualization_type self)
                        (json_dumps lib (PList gs))
                        (isoformat lib (hd ?ts)) (isoformat lib (last ?ts))))])"
    proof (rule impI)
      assume h: "(\<forall>k<min (length values) (length ?ts). length cs \<le> length (nd_items (values ! k))) \<and>
        ?ts \<noteq> []"
      from h have h1: "\<forall>k<min (length values) (length ?ts). length cs \<le> length (nd_items (values ! k))"
        by (rule conjunct1)
      from h have h2: "?ts \<noteq> []"
        by (rule conjunct2)
      from h1 h2 show "\<exists>gs.
           construct_geojsons (isoformat lib) (Arr cs) ?ts ?cut = Inr gs \<and>
           gs = map (\<lambda>i. collection_obj
                  (map (\<lambda>k.
                     feature_obj (of_nd (nd_items (cs ! i) ! 1)) (of_nd (nd_items (cs ! i) ! 0))
                       (of_nd (nd_items (values ! k) ! i)) (isoformat lib (?ts ! k)))
                     [0..<min (length values) (length ?ts)]))
                [0..<length cs] \<and>
           render lib self state_trajectory =
             Completed
               [(name (simulation_metadata (config self)) @ ''.geojson'', JsonFile (PList gs)),
                (name (simulation_metadata (config self)) @ ''.html'',
                   TextFile
                     (rendered_html (cesium_token self) (visualization_type self)
                        (json_dumps lib (PList gs))
                        (isoformat lib (hd ?ts)) (isoformat lib (last ?ts))))]"
        by (rule long)
    qed
  qed
qed

theorem render_value_count_mismatch_witness:
  "extract_coords_values (get_by_path example_library) example_geoplot
     [[example_state (Arr [Arr [Sc 10, Sc 20], Arr [Sc 30, Sc 40]]) (Arr [Sc 1])],
      [example_state (Arr [Arr [Sc 11, Sc 21], Arr [Sc 31, Sc 41]]) (Arr [Sc 3, Sc 4])]] =
     Inr (Arr [Arr [Sc 10, Sc 20], Arr [Sc 30, Sc 40]], [Arr [Sc 1]]) \<and>
   length (nd_items ([Arr [Sc (1::real)]] ! 0)) < length [Arr [Sc 10, Sc 20], Arr [Sc 30, Sc (40::real)]] \<and>
   render example_library example_geoplot
     [[example_state (Arr [Arr [Sc 10, Sc 20], Arr [Sc 30, Sc 40]]) (Arr [Sc 1])],
      [example_state (Arr [Arr [Sc 11, Sc 21], Arr [Sc 31, Sc 41]]) (Arr [Sc 3, Sc 4])]] =
     Raised IndexError []"
proof -
  let ?traj = "[[example_state (Arr [Arr [Sc 10, Sc 20], Arr [Sc 30, Sc 40]]) (Arr [Sc 1])],
      [example_state (Arr [Arr [Sc 11, Sc 21], Arr [Sc 31, Sc 41]]) (Arr [Sc 3, Sc 4])]]"
  have ex: "extract_coords_values (get_by_path example_library) example_geoplot ?traj =
     Inr (Arr [Arr [Sc 10, Sc 20], Arr [Sc 30, Sc 40]], [Arr [Sc 1]])"
    using example_extract_one_step [of "[1]"] by (simp add: example_library_def)
  have pairs: "\<forall>coord\<in>set [Arr [Sc 10, Sc 20], Arr [Sc 30, Sc (40::real)]].
      2 \<le> length (nd_items coord)"
    by simp
  have short: "\<exists>k<min (length [Arr [Sc (1::real)]])
        (length (gen_timestamps example_geoplot (utcnow example_library))).
      length (nd_items ([Arr [Sc (1::real)]] ! k))
        < length [Arr [Sc 10, Sc 20], Arr [Sc 30, Sc (40::real)]]"
    by (simp add: example_timestamps)
  from render_value_count_mismatch [OF ex pairs]
  have "(\<exists>k<min (length [Arr [Sc (1::real)]])
        (length (gen_timestamps example_geoplot (utcnow example_library))).
      length (nd_items ([Arr [Sc (1::real)]] ! k))
        < length [Arr [Sc 10, Sc 20], Arr [Sc 30, Sc (40::real)]]) \<longrightarrow>
    render example_library example_geoplot ?traj = Raised IndexError []"
    by (rule conjunct1)
  from this short
  have "render example_library example_geoplot ?traj = Raised IndexError []"
    by (rule mp)
  with ex show ?thesis
    by simp
qed

text \<open>
  The claim as stated fails where a step has more values than there are entities: two
  coordinate items, three values, and the method completes with features for the first
  two values.
\<close>

theorem render_longer_values_completes:
  "render example_library example_geoplot
     [[example_state (Arr [Arr [Sc 10, Sc 20], Arr [Sc 30, Sc 40]]) (Arr [Sc 1, Sc 2, Sc 3])],
      [example_state (Arr [Arr [Sc 11, Sc 21], Arr [Sc 31, Sc 41]]) (Arr [Sc 3, Sc 4])]] =
     Completed
       [(''sim.geojson'',
           JsonFile (PList
             [collection_obj [feature_obj (PNum 20) (PNum 10) (PNum 1) ''1000''],
              collection_obj [feature_obj (PNum 40) (PNum 30) (PNum 2) ''1000'']])),
        (''sim.html'',
           TextFile (rendered_html ''token'' ''size'' ''[]'' ''1000'' ''120000001000''))]"
proof -
  have ex: "extract_coords_values (get_by_path example_library) example_geoplot
     [[example_state (Arr [Arr [Sc 10, Sc 20], Arr [Sc 30, Sc 40]]) (Arr [Sc 1, Sc 2, Sc 3])],
      [example_state (Arr [Arr [Sc 11, Sc 21], Arr [Sc 31, Sc 41]]) (Arr [Sc 3, Sc 4])]] =
     Inr (Arr [Arr [Sc 10, Sc 20], Arr [Sc 30, Sc 40]], [Arr [Sc 1, Sc 2, Sc 3]])"
    using example_extract_one_step [of "[1, 2, 3]"] by (simp add: example_library_def)
  have gp: "name (simulation_metadata (config example_geoplot)) = ''sim''"
    "cesium_token example_geoplot = ''token''"
    "visualization_type example_geoplot = ''size''"
    "json_dumps example_library = (\<lambda>d. ''[]'')"
    by (simp_all add: example_geoplot_def example_library_def)
  have gs: "construct_geojsons (isoformat example_library)
      (Arr [Arr [Sc 10, Sc 20], Arr [Sc 30, Sc 40]]) [1000, 60000001000, 120000001000]
      [Arr [Sc 1, Sc 2, Sc 3]] =
    Inr [collection_obj [feature_obj (PNum 20) (PNum 10) (PNum 1) ''1000''],
         collection_obj [feature_obj (PNum 40) (PNum 30) (PNum (2::real)) ''1000'']]"
    by (simp add: construct_geojsons_def enumerate_py_def upt_conv_Cons py_index_def
        example_isoformat)
  show ?thesis
    unfolding render_eq ex example_timestamps
    by (simp add: gs gp example_isoformat)
qed

subsection \<open>The written page\<close>

lemma tpl_token_line:
  "\<exists>pre. tpl_upto_token = pre @ ''\<newline>      Cesium.Ion.defaultAccessToken = '' @ [CHR 0x27]"
proof -
  have "tpl_upto_token =
      take 569 tpl_upto_token @ ''\<newline>      Cesium.Ion.defaultAccessToken = '' @ [CHR 0x27]"
    by (simp add: tpl_upto_token_def)
  then show ?thesis by blast
qed

lemma tpl_after_token:
  "\<exists>rest. tpl_upto_alpha_test = CHR 0x27 # '';\<newline>'' @ rest"
proof -
  have "tpl_upto_alpha_test = CHR 0x27 # '';\<newline>'' @ drop 3 tpl_upto_alpha_test"
    by (simp add: tpl_upto_alpha_test_def)
  then show ?thesis by blast
qed

lemma render_html:
  assumes "render lib self state_trajectory = Completed [geodata, (path, TextFile html)]"
  shows "\<exists>dat startTime stopTime.
     html = rendered_html (cesium_token self) (visualization_type self) dat startTime stopTime"
proof -
  from assms obtain cs "values" where
    "[geodata, (path, TextFile html)] =
      [(name (simulation_metadata (config self)) @ ''.geojson'',
          JsonFile (PList (map (\<lambda>(i, coord). collection_obj
            (map (\<lambda>(time, value_list).
               feature_obj (of_nd (nd_items coord ! 1)) (of_nd (nd_items coord ! 0))
                 (of_nd (nd_items value_list ! i)) (isoformat lib time))
               (zip (gen_timestamps self (utcnow lib)) values)))
            (enumerate_py cs)))),
       (name (simulation_metadata (config self)) @ ''.html'',
          TextFile
            (rendered_html (cesium_token self) (visualization_type self)
               (json_dumps lib (PList (map (\<lambda>(i, coord). collection_obj
                  (map (\<lambda>(time, value_list).
                     feature_obj (of_nd (nd_items coord ! 1)) (of_nd (nd_items coord ! 0))
                       (of_nd (nd_items value_list ! i)) (isoformat lib time))
                     (zip (gen_timestamps self (utcnow lib)) values)))
                  (enumerate_py cs))))
               (isoformat lib (hd (gen_timestamps self (utcnow lib))))
               (isoformat lib (last (gen_timestamps self (utcnow lib))))))]"
    by (rule render_Completed)
  then have "html = rendered_html (cesium_token self) (visualization_type self)
               (json_dumps lib (PList (map (\<lambda>(i, coord). collection_obj
                  (map (\<lambda>(time, value_list).
                     feature_obj (of_nd (nd_items coord ! 1)) (of_nd (nd_items coord ! 0))
                       (of_nd (nd_items value_list ! i)) (isoformat lib time))
                     (zip (gen_timestamps self (utcnow lib)) values)))
                  (enumerate_py cs))))
               (isoformat lib (hd (gen_timestamps self (utcnow lib))))
               (isoformat lib (last (gen_timestamps self (utcnow lib))))"
    by (simp only: list.inject prod.inject file_content.inject)
  then show ?thesis by blast
qed

text \<open>
  C9. In the written page the access-token line is the template's line with the token
  in the place of \<^verbatim>\<open>$accessToken\<close>, unchanged: the page is the template's text up to
  and including \<^verbatim>\<open>Cesium.Ion.defaultAccessToken = '\<close>, then the token, then \<^verbatim>\<open>';\<close>
  and the rest. This holds for every token; for a token without a single quote, the
  text between the two quotes of that line is the token again. (A completed call has
  written exactly two files, the second one the page.)
\<close>

theorem token_inserted_verbatim:
  assumes "render lib self state_trajectory = Completed [geodata, (path, TextFile html)]"
  shows "(\<exists>pre. tpl_upto_token =
             pre @ ''\<newline>      Cesium.Ion.defaultAccessToken = '' @ [CHR 0x27]) \<and>
     (\<exists>post. html = tpl_upto_token @ cesium_token self @ CHR 0x27 # '';\<newline>'' @ post) \<and>
     (CHR 0x27 \<notin> set (cesium_token self) \<longrightarrow>
        takeWhile (\<lambda>c. c \<noteq> CHR 0x27) (drop (length tpl_upto_token) html) =
          cesium_token self)"
proof -
  from render_html [OF assms] obtain dat startTime stopTime where html:
    "html = rendered_html (cesium_token self) (visualization_type self) dat startTime stopTime"
    by blast
  from tpl_after_token obtain rest where
    rest: "tpl_upto_alpha_test = CHR 0x27 # '';\<newline>'' @ rest"
    by blast
  define post where "post = rest @ visualization_type self @ tpl_upto_size_test @
     visualization_type self @ tpl_upto_sample_test @ visualization_type self @
     tpl_upto_data @ dat @ tpl_upto_start @ startTime @ tpl_upto_stop @ stopTime @ tpl_tail"
  have form: "html = tpl_upto_token @ cesium_token self @ CHR 0x27 # '';\<newline>'' @ post"
    unfolding html rest post_def by simp
  have recover: "takeWhile (\<lambda>c. c \<noteq> CHR 0x27) (drop (length tpl_upto_token) html) =
      cesium_token self" if "CHR 0x27 \<notin> set (cesium_token self)"
  proof -
    have "drop (length tpl_upto_token) html = cesium_token self @ CHR 0x27 # '';\<newline>'' @ post"
      unfolding form by simp
    moreover have "takeWhile (\<lambda>c. c \<noteq> CHR 0x27)
        (cesium_token self @ CHR 0x27 # '';\<newline>'' @ post) =
        takeWhile (\<lambda>c. c \<noteq> CHR 0x27) (cesium_token self)"
      by (rule takeWhile_tail) simp
    moreover have "takeWhile (\<lambda>c. c \<noteq> CHR 0x27) (cesium_token self) = cesium_token self"
      using that by (auto simp: takeWhile_eq_all_conv)
    ultimately show ?thesis by simp
  qed
  from tpl_token_line form recover show ?thesis by blast
qed

theorem token_inserted_verbatim_witness:
  "render example_library example_geoplot example_trajectory =
     Completed
       [(''sim.geojson'',
           JsonFile (PList
             [collection_obj
                [feature_obj (PNum 21) (PNum 11) (PNum 1) ''1000'',
                 feature_obj (PNum 21) (PNum 11) (PNum 3) ''60000001000''],
              collection_obj
                [feature_obj (PNum 41) (PNum 31) (PNum 2) ''1000'',
                 feature_obj (PNum 41) (PNum 31) (PNum 4) ''60000001000'']])),
        (''sim.html'',
           TextFile (rendered_html ''token'' ''size'' ''[]'' ''1000'' ''120000001000''))] \<and>
   takeWhile (\<lambda>c. c \<noteq> CHR 0x27)
     (drop (length tpl_upto_token)
        (rendered_html ''token'' ''size'' ''[]'' ''1000'' ''120000001000'')) = ''token''"
proof -
  have q: "CHR 0x27 \<notin> set (cesium_token example_geoplot)"
    and t: "cesium_token example_geoplot = ''token''"
    by (simp_all add: example_geoplot_def)
  from token_inserted_verbatim [OF example_render]
  have "CHR 0x27 \<notin> set (cesium_token example_geoplot) \<longrightarrow>
     takeWhile (\<lambda>c. c \<noteq> CHR 0x27)
     (drop (length tpl_upto_token)
        (rendered_html ''token'' ''size'' ''[]'' ''1000'' ''120000001000'')) =
     cesium_token example_geoplot"
    by (elim conjE)
  from this q have "takeWhile (\<lambda>c. c \<noteq> CHR 0x27)
     (drop (length tpl_upto_token)
        (rendered_html ''token'' ''size'' ''[]'' ''1000'' ''120000001000'')) =
     cesium_token example_geoplot"
    by (rule mp)
  with t have "takeWhile (\<lambda>c. c \<noteq> CHR 0x27)
     (drop (length tpl_upto_token)
        (rendered_html ''token'' ''size'' ''[]'' ''1000'' ''120000001000'')) = ''token''"
    by (simp only:)
  with example_render show ?thesis
    by (rule conjI)
qed



subsection \<open>The alpha of an interpolated color\<close>

lemma js_literal_body_plain:
  "\<forall>c\<in>set s. c \<noteq> CHR 0x27 \<and> c \<noteq> CHR 0x5C \<and> c \<noteq> CHR 0x0A \<and> c \<noteq> CHR 0x0D \<Longrightarrow>
     js_literal_body s = Some s"
  by (induction s rule: js_literal_body.induct) simp_all

lemma js_string_literal_plain:
  assumes "\<forall>c\<in>set s. c \<noteq> CHR 0x27 \<and> c \<noteq> CHR 0x5C \<and> c \<noteq> CHR 0x0A \<and> c \<noteq> CHR 0x0D \<and>
         c \<noteq> CHR ''<'' \<and> c \<noteq> CHR 0x00"
  shows "js_string_literal s = Some s"
proof -
  from assms have "html_inert s"
    by (auto simp: html_inert_def)
  moreover from assms have "js_literal_body s = Some s"
    by (intro js_literal_body_plain) blast
  ultimately show ?thesis
    by (simp add: js_string_literal_def)
qed

lemma js_string_literal_hex_escape:
  "js_string_literal (''siz'' @ [CHR 0x5C] @ ''x65'') = Some ''size''"
  by (simp add: js_string_literal_def html_inert_def hex_digit_def char_of_def bit_0)

lemma example_script_intact:
  "script_intact ''token'' ''[]'' ''1000'' ''120000001000''"
  by (simp add: script_intact_def js_string_literal_def html_inert_def)

lemma extract_same_paths:
  "entity_position a = entity_position b \<Longrightarrow> entity_property a = entity_property b \<Longrightarrow>
     extract_loop gbp a traj idx c0 vs0 = extract_loop gbp b traj idx c0 vs0"
  by (induction idx arbitrary: c0 vs0) (simp_all split: sum.splits)

lemma tpl_alpha_line:
  "\<exists>pre. tpl_upto_alpha_test = pre @ ''\<newline>        result.alpha = '' @ [CHR 0x27]"
  "\<exists>post. tpl_upto_size_test =
     CHR 0x27 # '' == 'size' ? 0.2 : color1.alpha + factor * (color2.alpha - color1.alpha);\<newline>'' @ post"
proof -
  have "tpl_upto_alpha_test =
      take 385 tpl_upto_alpha_test @ ''\<newline>        result.alpha = '' @ [CHR 0x27]"
    by (simp add: tpl_upto_alpha_test_def)
  then show "\<exists>pre. tpl_upto_alpha_test = pre @ ''\<newline>        result.alpha = '' @ [CHR 0x27]"
    by blast
  have "tpl_upto_size_test =
     CHR 0x27 # '' == 'size' ? 0.2 : color1.alpha + factor * (color2.alpha - color1.alpha);\<newline>'' @
     drop 75 tpl_upto_size_test"
    by (simp add: tpl_upto_size_test_def)
  then show "\<exists>post. tpl_upto_size_test =
     CHR 0x27 # '' == 'size' ? 0.2 : color1.alpha + factor * (color2.alpha - color1.alpha);\<newline>'' @ post"
    by blast
qed

text \<open>
  C8, as the page behaves. The written page is the template with the configured
  \<open>visualization_type\<close> in the place of every \<^verbatim>\<open>$visualType\<close>, so the alpha line
  reads \<^verbatim>\<open>result.alpha = '\<close>, the configured text, \<^verbatim>\<open>' == 'size' ? 0.2 : ...\<close>. In a
  page whose script is intact: when the configured text is \<^verbatim>\<open>size\<close>,
  \<open>interpolateColor\<close> returns the alpha 0.2 for every sample; when it is another text
  without single quote, backslash, line break, \<^verbatim>\<open><\<close> or NUL, the alpha is
  \<open>color1.alpha + factor * (color2.alpha - color1.alpha)\<close>.
\<close>

theorem alpha_by_visual_type:
  assumes "render lib self state_trajectory = Completed [geodata, (path, TextFile html)]"
  shows
    "(\<exists>dat startTime stopTime.
        html = rendered_html (cesium_token self) (visualization_type self) dat startTime stopTime) \<and>
     (\<exists>pre. tpl_upto_alpha_test = pre @ ''\<newline>        result.alpha = '' @ [CHR 0x27]) \<and>
     (\<exists>post. tpl_upto_size_test =
        CHR 0x27 # '' == 'size' ? 0.2 : color1.alpha + factor * (color2.alpha - color1.alpha);\<newline>'' @ post) \<and>
     (\<forall>dat startTime stopTime.
        html = rendered_html (cesium_token self) (visualization_type self) dat startTime stopTime \<and>
        script_intact (cesium_token self) dat startTime stopTime \<longrightarrow>
        (visualization_type self = ''size'' \<longrightarrow>
           (\<forall>color1 color2 factor. \<exists>result.
              interpolateColor (cesium_token self) (visualization_type self) dat startTime stopTime
                color1 color2 factor = Some result \<and>
              alpha result = 0.2)) \<and>
        (visualization_type self \<noteq> ''size'' \<and>
         (\<forall>c\<in>set (visualization_type self).
            c \<noteq> CHR 0x27 \<and> c \<noteq> CHR 0x5C \<and> c \<noteq> CHR 0x0A \<and> c \<noteq> CHR 0x0D \<and>
         c \<noteq> CHR ''<'' \<and> c \<noteq> CHR 0x00) \<longrightarrow>
           (\<forall>color1 color2 factor. \<exists>result.
              interpolateColor (cesium_token self) (visualization_type self) dat startTime stopTime
                color1 color2 factor = Some result \<and>
              alpha result = alpha color1 + factor * (alpha color2 - alpha color1))))"
proof -
  have size: "\<exists>result. interpolateColor (cesium_token self) (visualization_type self)
        dat startTime stopTime color1 color2 factor = Some result \<and> alpha result = 0.2"
    if "script_intact (cesium_token self) dat startTime stopTime"
      and "visualization_type self = ''size''"
    for dat startTime stopTime color1 color2 factor
  proof -
    have "js_string_literal ''size'' = Some ''size''"
      by (simp add: js_string_literal_def html_inert_def)
    with that show ?thesis
      by (simp add: interpolateColor_def)
  qed
  have other: "\<exists>result. interpolateColor (cesium_token self) (visualization_type self)
        dat startTime stopTime color1 color2 factor = Some result \<and>
      alpha result = alpha color1 + factor * (alpha color2 - alpha color1)"
    if "script_intact (cesium_token self) dat startTime stopTime"
      and "visualization_type self \<noteq> ''size''"
      and "\<forall>c\<in>set (visualization_type self).
            c \<noteq> CHR 0x27 \<and> c \<noteq> CHR 0x5C \<and> c \<noteq> CHR 0x0A \<and> c \<noteq> CHR 0x0D \<and>
         c \<noteq> CHR ''<'' \<and> c \<noteq> CHR 0x00"
    for dat startTime stopTime color1 color2 factor
    using that(1,2) js_string_literal_plain [OF that(3)] by (simp add: interpolateColor_def)
  have a: "\<exists>dat startTime stopTime.
      html = rendered_html (cesium_token self) (visualization_type self) dat startTime stopTime"
    using assms by (rule render_html)
  have b: "\<exists>pre. tpl_upto_alpha_test = pre @ ''\<newline>        result.alpha = '' @ [CHR 0x27]"
    by (rule tpl_alpha_line(1))
  have c: "\<exists>post. tpl_upto_size_test =
      CHR 0x27 # '' == 'size' ? 0.2 : color1.alpha + factor * (color2.alpha - color1.alpha);\<newline>'' @ post"
    by (rule tpl_alpha_line(2))
  have d: "\<forall>dat startTime stopTime.
        html = rendered_html (cesium_token self) (visualization_type self) dat startTime stopTime \<and>
        script_intact (cesium_token self) dat startTime stopTime \<longrightarrow>
        (visualization_type self = ''size'' \<longrightarrow>
           (\<forall>color1 color2 factor. \<exists>result.
              interpolateColor (cesium_token self) (visualization_type self) dat startTime stopTime
                color1 color2 factor = Some result \<and>
              alpha result = 0.2)) \<and>
        (visualization_type self \<noteq> ''size'' \<and>
         (\<forall>c\<in>set (visualization_type self).
            c \<noteq> CHR 0x27 \<and> c \<noteq> CHR 0x5C \<and> c \<noteq> CHR 0x0A \<and> c \<noteq> CHR 0x0D \<and>
         c \<noteq> CHR ''<'' \<and> c \<noteq> CHR 0x00) \<longrightarrow>
           (\<forall>color1 color2 factor. \<exists>result.
              interpolateColor (cesium_token self) (visualization_type self) dat startTime stopTime
                color1 color2 factor = Some result \<and>
              alpha result = alpha color1 + factor * (alpha color2 - alpha color1)))"
  proof (intro allI impI)
    fix dat startTime stopTime
    assume h: "html = rendered_html (cesium_token self) (visualization_type self)
          dat startTime stopTime \<and>
        script_intact (cesium_token self) dat startTime stopTime"
    from h have intact: "script_intact (cesium_token self) dat startTime stopTime"
      by (rule conjunct2)
    show "(visualization_type self = ''size'' \<longrightarrow>
           (\<forall>color1 color2 factor. \<exists>result.
              interpolateColor (cesium_token self) (visualization_type self) dat startTime stopTime
                color1 color2 factor = Some result \<and>
              alpha result = 0.2)) \<and>
        (visualization_type self \<noteq> ''size'' \<and>
         (\<forall>c\<in>set (visualization_type self).
            c \<noteq> CHR 0x27 \<and> c \<noteq> CHR 0x5C \<and> c \<noteq> CHR 0x0A \<and> c \<noteq> CHR 0x0D \<and>
         c \<noteq> CHR ''<'' \<and> c \<noteq> CHR 0x00) \<longrightarrow>
           (\<forall>color1 color2 factor. \<exists>result.
              interpolateColor (cesium_token self) (visualization_type self) dat startTime stopTime
                color1 color2 factor = Some result \<and>
              alpha result = alpha color1 + factor * (alpha color2 - alpha color1)))"
    proof (rule conjI)
      show "visualization_type self = ''size'' \<longrightarrow>
           (\<forall>color1 color2 factor. \<exists>result.
              interpolateColor (cesium_token self) (visualization_type self) dat startTime stopTime
                color1 color2 factor = Some result \<and>
              alpha result = 0.2)"
      proof (intro impI allI)
        fix color1 color2 factor
        assume "visualization_type self = ''size''"
        with intact show "\<exists>result.
              interpolateColor (cesium_token self) (visualization_type self) dat startTime stopTime
                color1 color2 factor = Some result \<and>
              alpha result = 0.2"
          by (rule size)
      qed
    next
      show "visualization_type self \<noteq> ''size'' \<and>
         (\<forall>c\<in>set (visualization_type self).
            c \<noteq> CHR 0x27 \<and> c \<noteq> CHR 0x5C \<and> c \<noteq> CHR 0x0A \<and> c \<noteq> CHR 0x0D \<and>
         c \<noteq> CHR ''<'' \<and> c \<noteq> CHR 0x00) \<longrightarrow>
           (\<forall>color1 color2 factor. \<exists>result.
              interpolateColor (cesium_token self) (visualization_type self) dat startTime stopTime
                color1 color2 factor = Some result \<and>
              alpha result = alpha color1 + factor * (alpha color2 - alpha color1))"
      proof (intro impI allI)
        fix color1 color2 factor
        assume p: "visualization_type self \<noteq> ''size'' \<and>
         (\<forall>c\<in>set (visualization_type self).
            c \<noteq> CHR 0x27 \<and> c \<noteq> CHR 0x5C \<and> c \<noteq> CHR 0x0A \<and> c \<noteq> CHR 0x0D \<and>
         c \<noteq> CHR ''<'' \<and> c \<noteq> CHR 0x00)"
        from p have p1: "visualization_type self \<noteq> ''size''"
          by (rule conjunct1)
        from p have p2: "\<forall>c\<in>set (visualization_type self).
            c \<noteq> CHR 0x27 \<and> c \<noteq> CHR 0x5C \<and> c \<noteq> CHR 0x0A \<and> c \<noteq> CHR 0x0D \<and>
         c \<noteq> CHR ''<'' \<and> c \<noteq> CHR 0x00"
          by (rule conjunct2)
        from intact p1 p2 show "\<exists>result.
              interpolateColor (cesium_token self) (visualization_type self) dat startTime stopTime
                color1 color2 factor = Some result \<and>
              alpha result = alpha color1 + factor * (alpha color2 - alpha color1)"
          by (rule other)
      qed
    qed
  qed
  from a b c d show ?thesis
    by (intro conjI)
qed

theorem alpha_by_visual_type_witness:
  "render example_library example_geoplot example_trajectory =
     Completed
       [(''sim.geojson'',
           JsonFile (PList
             [collection_obj
                [feature_obj (PNum 21) (PNum 11) (PNum 1) ''1000'',
                 feature_obj (PNum 21) (PNum 11) (PNum 3) ''60000001000''],
              collection_obj
                [feature_obj (PNum 41) (PNum 31) (PNum 2) ''1000'',
                 feature_obj (PNum 41) (PNum 31) (PNum 4) ''60000001000'']])),
        (''sim.html'',
           TextFile (rendered_html ''token'' ''size'' ''[]'' ''1000'' ''120000001000''))] \<and>
   script_intact ''token'' ''[]'' ''1000'' ''120000001000'' \<and>
   visualization_type example_geoplot = ''size'' \<and>
   (\<exists>result.
      interpolateColor ''token'' ''size'' ''[]'' ''1000'' ''120000001000''
        \<lparr>red = 0, green = 0, blue = 1, alpha = 1\<rparr> \<lparr>red = 1, green = 0, blue = 0, alpha = 1\<rparr> (1 / 2)
        = Some result \<and>
      alpha result = 0.2)"
proof -
  have vt: "visualization_type example_geoplot = ''size''"
    and tok: "cesium_token example_geoplot = ''token''"
    by (simp_all add: example_geoplot_def)
  have page: "rendered_html ''token'' ''size'' ''[]'' ''1000'' ''120000001000'' =
      rendered_html (cesium_token example_geoplot) (visualization_type example_geoplot)
        ''[]'' ''1000'' ''120000001000''"
    by (simp only: vt tok)
  have intact: "script_intact (cesium_token example_geoplot) ''[]'' ''1000'' ''120000001000''"
    using example_script_intact by (simp only: tok)
  from alpha_by_visual_type [OF example_render]
  have "\<forall>dat startTime stopTime.
        rendered_html ''token'' ''size'' ''[]'' ''1000'' ''120000001000'' =
          rendered_html (cesium_token example_geoplot) (visualization_type example_geoplot)
            dat startTime stopTime \<and>
        script_intact (cesium_token example_geoplot) dat startTime stopTime \<longrightarrow>
        (visualization_type example_geoplot = ''size'' \<longrightarrow>
           (\<forall>color1 color2 factor. \<exists>result.
              interpolateColor (cesium_token example_geoplot) (visualization_type example_geoplot)
                dat startTime stopTime color1 color2 factor = Some result \<and>
              alpha result = 0.2)) \<and>
        (visualization_type example_geoplot \<noteq> ''size'' \<and>
         (\<forall>c\<in>set (visualization_type example_geoplot).
            c \<noteq> CHR 0x27 \<and> c \<noteq> CHR 0x5C \<and> c \<noteq> CHR 0x0A \<and> c \<noteq> CHR 0x0D \<and>
         c \<noteq> CHR ''<'' \<and> c \<noteq> CHR 0x00) \<longrightarrow>
           (\<forall>color1 color2 factor. \<exists>result.
              interpolateColor (cesium_token example_geoplot) (visualization_type example_geoplot)
                dat startTime stopTime color1 color2 factor = Some result \<and>
              alpha result = alpha color1 + factor * (alpha color2 - alpha color1)))"
    by (elim conjE)
  then have "rendered_html ''token'' ''size'' ''[]'' ''1000'' ''120000001000'' =
          rendered_html (cesium_token example_geoplot) (visualization_type example_geoplot)
            ''[]'' ''1000'' ''120000001000'' \<and>
        script_intact (cesium_token example_geoplot) ''[]'' ''1000'' ''120000001000'' \<longrightarrow>
        (visualization_type example_geoplot = ''size'' \<longrightarrow>
           (\<forall>color1 color2 factor. \<exists>result.
              interpolateColor (cesium_token example_geoplot) (visualization_type example_geoplot)
                ''[]'' ''1000'' ''120000001000'' color1 color2 factor = Some result \<and>
              alpha result = 0.2)) \<and>
        (visualization_type example_geoplot \<noteq> ''size'' \<and>
         (\<forall>c\<in>set (visualization_type example_geoplot).
            c \<noteq> CHR 0x27 \<and> c \<noteq> CHR 0x5C \<and> c \<noteq> CHR 0x0A \<and> c \<noteq> CHR 0x0D \<and>
         c \<noteq> CHR ''<'' \<and> c \<noteq> CHR 0x00) \<longrightarrow>
           (\<forall>color1 color2 factor. \<exists>result.
              interpolateColor (cesium_token example_geoplot) (visualization_type example_geoplot)
                ''[]'' ''1000'' ''120000001000'' color1 color2 factor = Some result \<and>
              alpha result = alpha color1 + factor * (alpha color2 - alpha color1)))"
    by (elim allE)
  moreover from page intact
  have "rendered_html ''token'' ''size'' ''[]'' ''1000'' ''120000001000'' =
          rendered_html (cesium_token example_geoplot) (visualization_type example_geoplot)
            ''[]'' ''1000'' ''120000001000'' \<and>
        script_intact (cesium_token example_geoplot) ''[]'' ''1000'' ''120000001000''"
    by (rule conjI)
  ultimately have "(visualization_type example_geoplot = ''size'' \<longrightarrow>
           (\<forall>color1 color2 factor. \<exists>result.
              interpolateColor (cesium_token example_geoplot) (visualization_type example_geoplot)
                ''[]'' ''1000'' ''120000001000'' color1 color2 factor = Some result \<and>
              alpha result = 0.2)) \<and>
        (visualization_type example_geoplot \<noteq> ''size'' \<and>
         (\<forall>c\<in>set (visualization_type example_geoplot).
            c \<noteq> CHR 0x27 \<and> c \<noteq> CHR 0x5C \<and> c \<noteq> CHR 0x0A \<and> c \<noteq> CHR 0x0D \<and>
         c \<noteq> CHR ''<'' \<and> c \<noteq> CHR 0x00) \<longrightarrow>
           (\<forall>color1 color2 factor. \<exists>result.
              interpolateColor (cesium_token example_geoplot) (visualization_type example_geoplot)
                ''[]'' ''1000'' ''120000001000'' color1 color2 factor = Some result \<and>
              alpha result = alpha color1 + factor * (alpha color2 - alpha color1)))"
    by (rule mp)
  then have "visualization_type example_geoplot = ''size'' \<longrightarrow>
           (\<forall>color1 color2 factor. \<exists>result.
              interpolateColor (cesium_token example_geoplot) (visualization_type example_geoplot)
                ''[]'' ''1000'' ''120000001000'' color1 color2 factor = Some result \<and>
              alpha result = 0.2)"
    by (rule conjunct1)
  from this vt have "\<forall>color1 color2 factor. \<exists>result.
              interpolateColor (cesium_token example_geoplot) (visualization_type example_geoplot)
                ''[]'' ''1000'' ''120000001000'' color1 color2 factor = Some result \<and>
              alpha result = 0.2"
    by (rule mp)
  then have "\<exists>result.
      interpolateColor (cesium_token example_geoplot) (visualization_type example_geoplot)
        ''[]'' ''1000'' ''120000001000''
        \<lparr>red = 0, green = 0, blue = 1, alpha = 1\<rparr> \<lparr>red = 1, green = 0, blue = 0, alpha = 1\<rparr> (1 / 2)
        = Some result \<and>
      alpha result = 0.2"
    by (elim allE)
  then have "\<exists>result.
      interpolateColor ''token'' ''size'' ''[]'' ''1000'' ''120000001000''
        \<lparr>red = 0, green = 0, blue = 1, alpha = 1\<rparr> \<lparr>red = 1, green = 0, blue = 0, alpha = 1\<rparr> (1 / 2)
        = Some result \<and>
      alpha result = 0.2"
    by (simp only: vt tok)
  with example_render example_script_intact vt show ?thesis
    by (intro conjI)
qed

text \<open>
  The claim as stated fails for a text that is not \<^verbatim>\<open>size\<close> but denotes it as a
  JavaScript literal: with \<^verbatim>\<open>siz\x65\<close> the page is written, its test reads
  \<^verbatim>\<open>'siz\x65' == 'size'\<close>, and the alpha is fixed at 0.2 (between BLUE and RED, whose
  alphas are 1).
\<close>

theorem escaped_size_fixes_alpha:
  "''siz'' @ [CHR 0x5C] @ ''x65'' \<noteq> ''size'' \<and>
   render example_library
       (example_geoplot\<lparr>visualization_type := ''siz'' @ [CHR 0x5C] @ ''x65''\<rparr>)
       example_trajectory =
     Completed
       [(''sim.geojson'',
           JsonFile (PList
             [collection_obj
                [feature_obj (PNum 21) (PNum 11) (PNum 1) ''1000'',
                 feature_obj (PNum 21) (PNum 11) (PNum 3) ''60000001000''],
              collection_obj
                [feature_obj (PNum 41) (PNum 31) (PNum 2) ''1000'',
                 feature_obj (PNum 41) (PNum 31) (PNum 4) ''60000001000'']])),
        (''sim.html'',
           TextFile (rendered_html ''token'' (''siz'' @ [CHR 0x5C] @ ''x65'') ''[]'' ''1000''
             ''120000001000''))] \<and>
   script_intact ''token'' ''[]'' ''1000'' ''120000001000'' \<and>
   interpolateColor ''token'' (''siz'' @ [CHR 0x5C] @ ''x65'') ''[]'' ''1000'' ''120000001000''
       \<lparr>red = 0, green = 0, blue = 1, alpha = 1\<rparr> \<lparr>red = 1, green = 0, blue = 0, alpha = 1\<rparr> (1 / 2) =
     Some \<lparr>red = 1 / 2, green = 0, blue = 1 / 2, alpha = 0.2\<rparr>"
proof -
  let ?gp = "example_geoplot\<lparr>visualization_type := ''siz'' @ [CHR 0x5C] @ ''x65''\<rparr>"
  have ne: "''siz'' @ [CHR 0x5C] @ ''x65'' \<noteq> ''size''"
    by simp
  have ex: "extract_coords_values (get_by_path example_library) ?gp example_trajectory =
      Inr (Arr [Arr [Sc 11, Sc 21], Arr [Sc 31, Sc 41]], [Arr [Sc 1, Sc 2], Arr [Sc 3, Sc 4]])"
    using example_extract
      extract_same_paths [of ?gp example_geoplot resolve example_trajectory
        "[0..<length example_trajectory - 1]" "Arr []" "[]"]
    by (simp add: extract_coords_values_def example_library_def)
  have ts: "gen_timestamps ?gp (utcnow example_library) = [1000, 60000001000, 120000001000]"
    using example_timestamps by (simp add: gen_timestamps_def)
  have gp: "name (simulation_metadata (config example_geoplot)) = ''sim''"
    "cesium_token example_geoplot = ''token''"
    "json_dumps example_library = (\<lambda>d. ''[]'')"
    by (simp_all add: example_geoplot_def example_library_def)
  have r: "render example_library ?gp example_trajectory =
     Completed
       [(''sim.geojson'',
           JsonFile (PList
             [collection_obj
                [feature_obj (PNum 21) (PNum 11) (PNum 1) ''1000'',
                 feature_obj (PNum 21) (PNum 11) (PNum 3) ''60000001000''],
              collection_obj
                [feature_obj (PNum 41) (PNum 31) (PNum 2) ''1000'',
                 feature_obj (PNum 41) (PNum 31) (PNum 4) ''60000001000'']])),
        (''sim.html'',
           TextFile (rendered_html ''token'' (''siz'' @ [CHR 0x5C] @ ''x65'') ''[]'' ''1000''
             ''120000001000''))]"
    unfolding render_eq ex ts
    by (simp add: example_geojsons example_isoformat gp)
  have i: "interpolateColor ''token'' (''siz'' @ [CHR 0x5C] @ ''x65'') ''[]'' ''1000''
       ''120000001000''
       \<lparr>red = 0, green = 0, blue = 1, alpha = 1\<rparr> \<lparr>red = 1, green = 0, blue = 0, alpha = 1\<rparr> (1 / 2) =
     Some \<lparr>red = 1 / 2, green = 0, blue = 1 / 2, alpha = 0.2\<rparr>"
    using example_script_intact
    unfolding interpolateColor_def js_string_literal_hex_escape by simp
  from ne r example_script_intact i show ?thesis
    by (intro conjI)
qed

end
